theory Spec2Isabelle
  imports Complex_Main
begin

section \<open>Strings\<close>

text \<open>
  A Python \<open>str\<close> is modelled as the list of its code points, for code points below 256
  (the type \<open>char\<close>). The two characters that cannot be written inside a literal get
  names.
\<close>

definition nl :: string where
  "nl = [CHR 0x0A]"

definition bsl :: string where
  "bsl = [CHR 0x5C]"

section \<open>Python string operations\<close>

text \<open>
  The string methods and regular expressions the program uses, on code points below 256.
  \<open>is_space\<close> is \<open>str.isspace\<close>, which is also what \<open>\s\<close> matches and what \<open>strip()\<close>
  removes; \<open>is_digit\<close> is what \<open>\d\<close> matches (the decimal digits); \<open>py_isdigit\<close> is
  \<open>str.isdigit\<close> on one character, which also accepts the superscript digits.
  \<open>split_once sep s\<close> is \<open>s.split(sep, 1)\<close>: the part before the first separator and, when
  there is one, the part after it. \<open>squeeze_ws\<close> is \<open>re.sub(r"\s+", " ", s)\<close>, \<open>first_number\<close>
  is group 1 of \<open>re.search(r"(\d+)", s)\<close> and \<open>int_of_digits\<close> is \<open>int\<close> on decimal digits,
  without the interpreter's limit on the length of the digit string.
\<close>

definition is_space :: "char \<Rightarrow> bool" where
  "is_space c =
     (let n = (of_char c :: nat) in (9 \<le> n \<and> n \<le> 13) \<or> (28 \<le> n \<and> n \<le> 32) \<or> n = 133 \<or> n = 160)"

definition is_digit :: "char \<Rightarrow> bool" where
  "is_digit c = (let n = (of_char c :: nat) in 48 \<le> n \<and> n \<le> 57)"

definition py_isdigit :: "char \<Rightarrow> bool" where
  "py_isdigit c = (let n = (of_char c :: nat) in (48 \<le> n \<and> n \<le> 57) \<or> n = 178 \<or> n = 179 \<or> n = 185)"

definition lower_char :: "char \<Rightarrow> char" where
  "lower_char c =
     (let n = (of_char c :: nat)
      in if (65 \<le> n \<and> n \<le> 90) \<or> (192 \<le> n \<and> n \<le> 222 \<and> n \<noteq> 215) then char_of (n + 32) else c)"

definition lower :: "string \<Rightarrow> string" where
  "lower s = map lower_char s"

definition strip_chars :: "(char \<Rightarrow> bool) \<Rightarrow> string \<Rightarrow> string" where
  "strip_chars P s = rev (dropWhile P (rev (dropWhile P s)))"

definition strip :: "string \<Rightarrow> string" where
  "strip s = strip_chars is_space s"

definition startswith :: "string \<Rightarrow> string \<Rightarrow> bool" where
  "startswith p s = (take (length p) s = p)"

definition endswith :: "string \<Rightarrow> string \<Rightarrow> bool" where
  "endswith p s = (length p \<le> length s \<and> drop (length s - length p) s = p)"

fun contains :: "string \<Rightarrow> string \<Rightarrow> bool" where
  "contains sub [] = (sub = [])"
| "contains sub (c # cs) = (startswith sub (c # cs) \<or> contains sub cs)"

definition split_once :: "char \<Rightarrow> string \<Rightarrow> string \<times> string option" where
  "split_once sep s =
     (let hd_part = takeWhile (\<lambda>c. c \<noteq> sep) s; rest = dropWhile (\<lambda>c. c \<noteq> sep) s
      in (hd_part, if rest = [] then None else Some (tl rest)))"

definition replace_char :: "char \<Rightarrow> string \<Rightarrow> string \<Rightarrow> string" where
  "replace_char old new s = concat (map (\<lambda>c. if c = old then new else [c]) s)"

fun replace_first :: "string \<Rightarrow> string \<Rightarrow> string \<Rightarrow> string" where
  "replace_first old new [] = (if old = [] then new else [])"
| "replace_first old new (c # cs) =
     (if startswith old (c # cs) then new @ drop (length old) (c # cs)
      else c # replace_first old new cs)"

function squeeze_ws :: "string \<Rightarrow> string" where
  "squeeze_ws [] = []"
| "squeeze_ws (c # cs) =
     (if is_space c then CHR '' '' # squeeze_ws (dropWhile is_space cs) else c # squeeze_ws cs)"
  by pat_completeness auto
termination
  by (relation "measure length") (auto simp: length_dropWhile_le less_Suc_eq_le)

definition collapse_ws :: "string \<Rightarrow> string" where
  "collapse_ws s = strip (squeeze_ws s)"

definition first_number :: "string \<Rightarrow> string option" where
  "first_number s =
     (let r = dropWhile (\<lambda>c. \<not> is_digit c) s
      in if r = [] then None else Some (takeWhile is_digit r))"

definition int_of_digits :: "string \<Rightarrow> nat" where
  "int_of_digits ds = foldl (\<lambda>n c. 10 * n + (of_char c - 48)) 0 ds"

section \<open>The URL library\<close>

text \<open>
  \<open>urlparse\<close>, \<open>urljoin\<close>, \<open>requests.utils.requote_uri\<close> and \<open>Path(p).suffix\<close> belong to
  libraries, not to the program: the model takes them as a parameter, a record of
  functions, and every theorem holds for any such record.
\<close>

record url =
  netloc :: string
  urlpath :: string
  fragment :: string

record urllib =
  urlparse :: "string \<Rightarrow> url"
  urljoin :: "string \<Rightarrow> string \<Rightarrow> string"
  requote_uri :: "string \<Rightarrow> string"
  path_suffix :: "string \<Rightarrow> string"

section \<open>Escaping\<close>

text \<open>
  Of the table \<open>REPLACEMENTS\<close> only the no-break space is a code point below 256; the
  other entries replace characters that strings of the model do not hold. The letters of
  \<open>UNICODE_LATEX\<close> are \<open>0xE9\<close>, \<open>0xEA\<close> and \<open>0xEF\<close>.
\<close>

definition normalize_text :: "string \<Rightarrow> string" where
  "normalize_text s = replace_char (CHR 0xA0) '' '' s"

definition latex_escape_char :: "char \<Rightarrow> string" where
  "latex_escape_char ch =
     (if ch = CHR 0xE9 then bsl @ [CHR 0x27] @ ''e''
      else if ch = CHR 0xEA then bsl @ ''^e''
      else if ch = CHR 0xEF then bsl @ [CHR 0x22] @ ''i''
      else if ch \<in> set ''%$#&_{}'' then bsl @ [ch]
      else if ch = CHR ''~'' then bsl @ ''textasciitilde{}''
      else if ch = CHR ''^'' then bsl @ ''textasciicircum{}''
      else [ch])"

definition latex_escape_plain :: "string \<Rightarrow> string" where
  "latex_escape_plain s = concat (map latex_escape_char (normalize_text s))"

section \<open>Flow packing (\<open>render_blocks\<close>)\<close>

text \<open>
  \<open>render_blocks\<close> keeps four variables that its two closures \<open>push_flow\<close> and
  \<open>flush_flow\<close> share: the emitted \<open>parts\<close>, the pending \<open>flow_parts\<close> and the
  counters \<open>flow_words\<close> and \<open>flow_blocks\<close>. The closures become functions on a record
  of the four; \<open>hybrid\<close> is the parameter of \<open>render_blocks\<close> they read.
\<close>

record flow_state =
  parts :: "string list"
  flow_parts :: "string list"
  flow_words :: int
  flow_blocks :: int

definition push_flow :: "string \<Rightarrow> int \<Rightarrow> flow_state \<Rightarrow> flow_state" where
  "push_flow tex words st =
     (if tex = [] then st
      else st\<lparr>flow_parts := flow_parts st @ [tex],
              flow_words := flow_words st + words,
              flow_blocks := flow_blocks st + 1\<rparr>)"

text \<open>The multi-column region \<open>flush_flow\<close> wraps around a chunk.\<close>

definition hybridcols :: "string \<Rightarrow> string" where
  "hybridcols chunk =
     bsl @ ''begin{hybridcols}'' @ nl @ chunk @ bsl @ ''end{hybridcols}'' @ nl @ nl"

definition flush_flow :: "bool \<Rightarrow> flow_state \<Rightarrow> flow_state" where
  "flush_flow hybrid st =
     (if flow_parts st = [] then st
      else
        let chunk = concat (flow_parts st) in
        (if hybrid \<and> ((flow_blocks st \<ge> 2 \<and> flow_words st \<ge> 110) \<or> flow_words st \<ge> 180)
         then st\<lparr>parts := parts st @ [hybridcols chunk]\<rparr>
         else st\<lparr>parts := parts st @ [chunk]\<rparr>)
        \<lparr>flow_parts := [], flow_words := 0, flow_blocks := 0\<rparr>)"

text \<open>The state \<open>render_blocks\<close> starts from.\<close>

definition flow_init :: flow_state where
  "flow_init = \<lparr>parts = [], flow_parts = [], flow_words = 0, flow_blocks = 0\<rparr>"

section \<open>Formatting numbers\<close>

text \<open>
  \<open>str(n)\<close> and the format specifications \<open>{n:02d}\<close> and \<open>{n:03d}\<close> on a number that is
  not negative: the decimal digits, padded with zeros on the left up to the width.
\<close>

definition digit_char :: "nat \<Rightarrow> char" where
  "digit_char d = char_of (48 + d)"

function str_nat :: "nat \<Rightarrow> string" where
  "str_nat n = (if n < 10 then [digit_char n] else str_nat (n div 10) @ [digit_char (n mod 10)])"
  by pat_completeness auto
termination
  by (relation "measure (\<lambda>n. n)") auto

declare str_nat.simps [simp del]

definition zero_pad :: "nat \<Rightarrow> nat \<Rightarrow> string" where
  "zero_pad w n = replicate (w - length (str_nat n)) (CHR ''0'') @ str_nat n"

section \<open>The booklet splitter (\<open>write_stapled_sections\<close>)\<close>

text \<open>
  The compiled document is the list of its pages (\<open>reader.pages\<close>). A cover page is the
  first page of the document that the typesetter compiles from \<open>booklet_cover_tex\<close>; it
  is represented by the arguments of that call. What the function writes is collected
  in a record: the cover documents it compiles and the section files it writes, each in
  the order of the writes. The typesetter and the PDF library are taken to succeed.

  \<open>math.ceil(total_pages / content_pages_per_section)\<close> divides in floating point. The
  quotient of two integers is rounded correctly, so its ceiling is the exact one for
  every page count below \<open>2^53\<close>; \<open>ceil_div\<close> is the exact ceiling.
\<close>

definition ceil_div :: "nat \<Rightarrow> nat \<Rightarrow> nat" where
  "ceil_div a b = (a + b - 1) div b"

datatype error = ValueError string

record cover_args =
  cover_title :: string
  booklet_idx :: nat
  booklet_total :: nat
  content_start :: nat
  content_end :: nat
  cover_paper :: string

datatype 'p pdf_page = CoverPage cover_args | ContentPage 'p

record 'p outputs =
  covers :: "cover_args list"
  files :: "(string \<times> 'p pdf_page list) list"

text \<open>
  The body of the loop over the sections, in three parts: the arguments of the call of
  \<open>booklet_cover_tex\<close>, the pages the writer gets after the cover page, and the path of
  the section file. \<open>write_section\<close> is the loop body, on the list of paths returned so
  far and the outputs so far.
\<close>

definition section_cover :: "string \<Rightarrow> string \<Rightarrow> nat \<Rightarrow> nat \<Rightarrow> nat \<Rightarrow> nat \<Rightarrow> cover_args" where
  "section_cover title paper content_pages_per_section total_pages section_total i =
     (let start = i * content_pages_per_section;
          end = min ((i + 1) * content_pages_per_section) total_pages
      in \<lparr>cover_title = title, booklet_idx = i + 1, booklet_total = section_total,
          content_start = start + 1, content_end = end, cover_paper = paper\<rparr>)"

definition section_content :: "'p list \<Rightarrow> nat \<Rightarrow> nat \<Rightarrow> 'p pdf_page list" where
  "section_content reader content_pages_per_section i =
     (let start = i * content_pages_per_section;
          end = min ((i + 1) * content_pages_per_section) (length reader)
      in map (\<lambda>page_idx. ContentPage (reader ! page_idx)) [start..<end])"

definition section_path :: "string \<Rightarrow> string \<Rightarrow> nat \<Rightarrow> nat \<Rightarrow> string" where
  "section_path outdir basename section_total i =
     outdir @ ''/'' @ basename @ ''-section-'' @ zero_pad 2 (i + 1)
       @ ''-of-'' @ zero_pad 2 section_total @ ''.pdf''"

definition write_section ::
  "'p list \<Rightarrow> string \<Rightarrow> string \<Rightarrow> string \<Rightarrow> string \<Rightarrow> nat \<Rightarrow> nat \<Rightarrow>
     string list \<times> 'p outputs \<Rightarrow> nat \<Rightarrow> string list \<times> 'p outputs" where
  "write_section reader outdir basename paper title content_pages_per_section section_total acc i =
     (let cover = section_cover title paper content_pages_per_section (length reader) section_total i;
          writer = CoverPage cover # section_content reader content_pages_per_section i;
          path = section_path outdir basename section_total i
      in (fst acc @ [path],
          (snd acc)\<lparr>covers := covers (snd acc) @ [cover],
                    files := files (snd acc) @ [(path, writer)]\<rparr>))"

definition write_stapled_sections ::
  "'p list \<Rightarrow> string \<Rightarrow> string \<Rightarrow> string \<Rightarrow> int \<Rightarrow> string \<Rightarrow> 'p outputs \<Rightarrow>
     (error + string list) \<times> 'p outputs" where
  "write_stapled_sections reader outdir basename paper section_max_pages title out =
     (if section_max_pages < 2
      then (Inl (ValueError ''section_max_pages must be at least 2 to include a cover page.''), out)
      else
        let total_pages = length reader;
            content_pages_per_section = nat (max 1 (section_max_pages - 1));
            section_total = max 1 (ceil_div total_pages content_pages_per_section);
            written = foldl (write_section reader outdir basename paper title
                              content_pages_per_section section_total)
                        ([], out) [0..<section_total]
        in (Inr (fst written), snd written))"

text \<open>
  The outputs before anything is written, and the content pages of a section file: its
  pages without the cover.
\<close>

definition no_outputs :: "'p outputs" where
  "no_outputs = \<lparr>covers = [], files = []\<rparr>"

fun content_pages :: "'p pdf_page list \<Rightarrow> 'p list" where
  "content_pages [] = []"
| "content_pages (CoverPage c # ps) = content_pages ps"
| "content_pages (ContentPage p # ps) = p # content_pages ps"

section \<open>The footnote resolver (\<open>build_numbered_footnotes\<close>)\<close>

text \<open>
  \<open>match_footnote\<close> matches \<open>footnote(?:-anchor)?-(\d+)\<close> at the start of a string and
  returns group 1; \<open>search_footnote\<close> is \<open>re.search\<close> with that pattern, the leftmost
  match. \<open>bracket_label\<close> matches \<open>^\[(\d+)\]\s*\<close> and returns group 1 and the text after
  the match.

  The parser hands the resolver elements; the model takes from each what the loop body
  reads. Of a \<open>p.footnote\<close>: its \<open>id\<close>, the text of its \<open>span.footnote-ref\<close> when it has
  one, and what \<open>convert_children\<close> renders of it once the span is removed. Of a
  \<open>div.footnote\<close>: its \<open>id\<close>, of its \<open>a.footnote-number\<close> (when it has one) the \<open>id\<close>, the
  \<open>href\<close> and the text, and what \<open>convert_children\<close> renders of its content once the link
  is removed. Each loop body derives a number, a text and a list of ids (\<open>p_entry\<close>,
  \<open>div_entry\<close>) and, when the number is not zero and the text is not empty, stores the
  text under the number and calls \<open>register_ids\<close> (\<open>register\<close>).
\<close>

definition dash_digits :: "string \<Rightarrow> string option" where
  "dash_digits s =
     (case s of
        [] \<Rightarrow> None
      | c # t \<Rightarrow> if c = CHR ''-'' \<and> takeWhile is_digit t \<noteq> [] then Some (takeWhile is_digit t) else None)"

definition match_footnote :: "string \<Rightarrow> string option" where
  "match_footnote s =
     (if startswith ''footnote'' s then
        let r = drop 8 s;
            with_anchor = (if startswith ''-anchor'' r then dash_digits (drop 7 r) else None)
        in (case with_anchor of Some ds \<Rightarrow> Some ds | None \<Rightarrow> dash_digits r)
      else None)"

fun search_footnote :: "string \<Rightarrow> string option" where
  "search_footnote [] = None"
| "search_footnote (c # cs) =
     (case match_footnote (c # cs) of Some ds \<Rightarrow> Some ds | None \<Rightarrow> search_footnote cs)"

definition bracket_label :: "string \<Rightarrow> (string \<times> string) option" where
  "bracket_label raw =
     (case raw of
        [] \<Rightarrow> None
      | c # r \<Rightarrow>
          (if c = CHR ''['' \<and> takeWhile is_digit r \<noteq> [] then
             (case dropWhile is_digit r of
                [] \<Rightarrow> None
              | c' # r' \<Rightarrow>
                  if c' = CHR '']'' then Some (takeWhile is_digit r, dropWhile is_space r') else None)
           else None))"

record footnote_tables =
  footnotes_by_number :: "nat \<rightharpoonup> string"
  footnotes_by_id :: "string \<rightharpoonup> string"

definition no_footnotes :: footnote_tables where
  "no_footnotes = \<lparr>footnotes_by_number = Map.empty, footnotes_by_id = Map.empty\<rparr>"

definition register_ids :: "string \<Rightarrow> nat \<Rightarrow> string list \<Rightarrow> (string \<rightharpoonup> string) \<Rightarrow> (string \<rightharpoonup> string)" where
  "register_ids text num ids by_id =
     (if text = [] then by_id
      else
        let by_id = (if num \<noteq> 0
                     then by_id(''footnote-'' @ str_nat num \<mapsto> text,
                                ''footnote-anchor-'' @ str_nat num \<mapsto> text)
                     else by_id)
        in foldl (\<lambda>m item. let key = collapse_ws item in if key \<noteq> [] then m(key \<mapsto> text) else m)
             by_id ids)"

type_synonym registration = "nat \<times> string \<times> string list"

definition register :: "footnote_tables \<Rightarrow> registration \<Rightarrow> footnote_tables" where
  "register tabs r =
     (case r of (num, text, ids) \<Rightarrow>
        tabs\<lparr>footnotes_by_number := (footnotes_by_number tabs)(num \<mapsto> text),
             footnotes_by_id := register_ids text num ids (footnotes_by_id tabs)\<rparr>)"

record p_footnote =
  p_id :: string
  p_span :: "string option"
  p_content :: string

definition p_entry :: "p_footnote \<Rightarrow> registration option" where
  "p_entry p =
     (let num = (case p_span p of
                   None \<Rightarrow> 0
                 | Some span_text \<Rightarrow>
                     (case first_number span_text of None \<Rightarrow> 0 | Some ds \<Rightarrow> int_of_digits ds));
          raw = strip (p_content p)
      in if raw = [] then None
         else
           let (num, text) =
                 (if num = 0 then
                    (case bracket_label raw of
                       Some (ds, rest) \<Rightarrow>
                         (int_of_digits ds, strip (takeWhile (\<lambda>c. c \<noteq> CHR 0x0A) rest))
                     | None \<Rightarrow> (num, raw))
                  else
                    (num, strip (case bracket_label raw of Some (ds, rest) \<Rightarrow> rest | None \<Rightarrow> raw)))
           in if num \<noteq> 0 \<and> text \<noteq> [] then Some (num, text, [p_id p]) else None)"

definition p_footnote_step :: "footnote_tables \<Rightarrow> p_footnote \<Rightarrow> footnote_tables" where
  "p_footnote_step tabs p = (case p_entry p of None \<Rightarrow> tabs | Some r \<Rightarrow> register tabs r)"

record number_link =
  link_id :: string
  link_href :: string
  link_text :: string

record div_footnote =
  div_id :: string
  div_number_link :: "number_link option"
  div_content :: string

definition div_number :: "urllib \<Rightarrow> string \<Rightarrow> div_footnote \<Rightarrow> nat \<times> string list" where
  "div_number lib page_url d =
     (case div_number_link d of
        None \<Rightarrow> (0, [])
      | Some number_link \<Rightarrow>
          let explicit_ids = [link_id number_link];
              href = collapse_ws (link_href number_link);
              (num, explicit_ids) =
                (if href \<noteq> [] then
                   let frag = fragment (urlparse lib (urljoin lib page_url href));
                       explicit_ids = (if frag \<noteq> [] then explicit_ids @ [frag] else explicit_ids);
                       num = (case search_footnote frag of
                                Some ds \<Rightarrow> int_of_digits ds
                              | None \<Rightarrow> 0)
                   in (num, explicit_ids)
                 else (0, explicit_ids));
              num = (if num = 0 then
                       (case first_number (link_text number_link) of
                          Some ds \<Rightarrow> int_of_digits ds
                        | None \<Rightarrow> 0)
                     else num)
          in (num, explicit_ids))"

definition div_entry :: "urllib \<Rightarrow> string \<Rightarrow> div_footnote \<Rightarrow> registration option" where
  "div_entry lib page_url d =
     (let (num, explicit_ids) = div_number lib page_url d;
          text = collapse_ws (div_content d)
      in if num \<noteq> 0 \<and> text \<noteq> [] then Some (num, text, div_id d # explicit_ids) else None)"

definition div_footnote_step :: "urllib \<Rightarrow> string \<Rightarrow> footnote_tables \<Rightarrow> div_footnote \<Rightarrow> footnote_tables" where
  "div_footnote_step lib page_url tabs d =
     (case div_entry lib page_url d of None \<Rightarrow> tabs | Some r \<Rightarrow> register tabs r)"

definition build_numbered_footnotes ::
  "urllib \<Rightarrow> string \<Rightarrow> p_footnote list \<Rightarrow> div_footnote list \<Rightarrow> footnote_tables" where
  "build_numbered_footnotes lib page_url ps divs =
     foldl (div_footnote_step lib page_url) (foldl p_footnote_step no_footnotes ps) divs"

text \<open>
  The keys \<open>register_ids\<close> writes for a number that is not zero, and the registrations of
  a run in the order the two loops make them.
\<close>

definition alias_keys :: "nat \<Rightarrow> string list \<Rightarrow> string list" where
  "alias_keys num ids =
     [''footnote-'' @ str_nat num, ''footnote-anchor-'' @ str_nat num]
       @ filter (\<lambda>key. key \<noteq> []) (map collapse_ws ids)"

definition registrations ::
  "urllib \<Rightarrow> string \<Rightarrow> p_footnote list \<Rightarrow> div_footnote list \<Rightarrow> registration list" where
  "registrations lib page_url ps divs =
     List.map_filter p_entry ps @ List.map_filter (div_entry lib page_url) divs"

section \<open>The inline converter (\<open>Converter\<close>)\<close>

text \<open>
  A \<open>Converter\<close> holds the two footnote tables and the page URL. The functions below are
  its methods that render a superscript and a hyperlink. Of a \<open>sup\<close> element the model
  takes what the methods read: its classes, its text (\<open>get_text()\<close>) and, for every
  \<open>a\<close> with an \<open>href\<close> inside it, in document order, the \<open>href\<close> and the stripped text of
  the link. \<open>convert_sup\<close> is the branch of \<open>convert_inline\<close> for a \<open>sup\<close> element; a
  \<open>span\<close> of class \<open>footnote-ref\<close> goes to \<open>footnote_from_text\<close> as well.

  \<open>int(label)\<close> raises \<open>ValueError\<close> on a label that \<open>str.isdigit\<close> accepts and that is
  not made of decimal digits (the superscript digits); \<open>footnote_from_ref\<close> returns the
  error then. \<open>hyperlink_label\<close> is the variable \<open>label\<close> of \<open>_render_hyperlink\<close>.
\<close>

record converter = footnote_tables +
  conv_page_url :: string

definition fragment_for_same_page :: "urllib \<Rightarrow> converter \<Rightarrow> string \<Rightarrow> string" where
  "fragment_for_same_page lib self href =
     (let href = collapse_ws href
      in if href = [] then []
         else if startswith ''#'' href then drop 1 href
         else if conv_page_url self = [] then []
         else
           let base = urlparse lib (conv_page_url self);
               resolved = urlparse lib (urljoin lib (conv_page_url self) href);
               same_host = (netloc resolved = netloc base);
               same_path = ((if urlpath resolved = [] then ''/'' else urlpath resolved)
                              = (if urlpath base = [] then ''/'' else urlpath base))
           in if same_host \<and> same_path \<and> fragment resolved \<noteq> [] then fragment resolved else [])"

definition footnote_from_href :: "urllib \<Rightarrow> converter \<Rightarrow> string \<Rightarrow> string" where
  "footnote_from_href lib self href =
     (let frag = fragment_for_same_page lib self href
      in if frag = [] then []
         else
           (case footnotes_by_id self frag of
              Some body \<Rightarrow> bsl @ ''footnote{'' @ body @ ''}''
            | None \<Rightarrow>
                (case search_footnote frag of
                   Some ds \<Rightarrow>
                     (case footnotes_by_number self (int_of_digits ds) of
                        Some body \<Rightarrow> bsl @ ''footnote{'' @ body @ ''}''
                      | None \<Rightarrow> [])
                 | None \<Rightarrow> [])))"

definition footnote_from_text :: "converter \<Rightarrow> string \<Rightarrow> string" where
  "footnote_from_text self text =
     (case first_number text of
        None \<Rightarrow> []
      | Some ds \<Rightarrow>
          let num = int_of_digits ds
          in (case footnotes_by_number self num of
                Some body \<Rightarrow> bsl @ ''footnote{'' @ body @ ''}''
              | None \<Rightarrow> bsl @ ''textsuperscript{'' @ str_nat num @ ''}''))"

definition ref_note :: "urllib \<Rightarrow> converter \<Rightarrow> string \<times> string \<Rightarrow> error + string" where
  "ref_note lib self a =
     (case a of (href, a_text) \<Rightarrow>
        let rendered = footnote_from_href lib self href
        in if rendered \<noteq> [] then Inr rendered
           else
             let label = strip_chars (\<lambda>c. c \<in> set ''[]'') a_text
             in if label \<noteq> [] \<and> list_all py_isdigit label then
                  (if list_all is_digit label then
                     (case footnotes_by_number self (int_of_digits label) of
                        Some body \<Rightarrow> Inr (bsl @ ''footnote{'' @ body @ ''}'')
                      | None \<Rightarrow> Inr (bsl @ ''textsuperscript{'' @ latex_escape_plain label @ ''}''))
                   else Inl (ValueError ''invalid literal for int() with base 10''))
                else if label \<noteq> [] then
                  Inr (bsl @ ''textsuperscript{'' @ latex_escape_plain label @ ''}'')
                else Inr [])"

fun footnote_from_ref :: "urllib \<Rightarrow> converter \<Rightarrow> (string \<times> string) list \<Rightarrow> error + string" where
  "footnote_from_ref lib self [] = Inr []"
| "footnote_from_ref lib self (a # links) =
     (case ref_note lib self a of
        Inl e \<Rightarrow> Inl e
      | Inr note \<Rightarrow>
          (case footnote_from_ref lib self links of
             Inl e \<Rightarrow> Inl e
           | Inr notes \<Rightarrow> Inr (note @ notes)))"

record sup_node =
  sup_class :: "string list"
  sup_text :: string
  sup_links :: "(string \<times> string) list"

definition convert_sup :: "urllib \<Rightarrow> converter \<Rightarrow> sup_node \<Rightarrow> error + string" where
  "convert_sup lib self node =
     (if ''reference'' \<in> set (sup_class node) then footnote_from_ref lib self (sup_links node)
      else Inr (footnote_from_text self (sup_text node)))"

definition href_target :: "urllib \<Rightarrow> string \<Rightarrow> string" where
  "href_target lib url =
     (let safe = strip (normalize_text url);
          safe = (if safe \<noteq> [] then requote_uri lib (fst (split_once (CHR ''#'') safe)) else safe);
          safe = replace_char (CHR ''}'') ''%7D'' (replace_char (CHR ''{'') ''%7B'' safe)
      in bsl @ ''detokenize{'' @ safe @ ''}'')"

definition compact_link_label :: "urllib \<Rightarrow> string \<Rightarrow> string" where
  "compact_link_label lib href =
     (let host = strip (lower (netloc (urlparse lib href)));
          host = (if startswith ''www.'' host then drop 4 host else host)
      in if host = [] then ''link'' else host)"

definition hyperlink_label :: "urllib \<Rightarrow> string \<Rightarrow> string \<Rightarrow> string \<Rightarrow> string" where
  "hyperlink_label lib href rendered_text plain_text =
     (let label = strip rendered_text;
          plain_lower = lower plain_text
      in if label = [] then latex_escape_plain (compact_link_label lib href)
         else if startswith ''http://'' plain_lower \<or> startswith ''https://'' plain_lower
                   \<or> startswith ''www.'' plain_lower
         then latex_escape_plain (compact_link_label lib href)
         else label)"

definition render_hyperlink :: "urllib \<Rightarrow> string \<Rightarrow> string \<Rightarrow> string \<Rightarrow> string" where
  "render_hyperlink lib href rendered_text plain_text =
     bsl @ ''href{'' @ href_target lib href @ ''}{'' @ bsl @ ''textcolor{LinkColor}{''
       @ hyperlink_label lib href rendered_text plain_text
       @ bsl @ ''hspace{0.32em}'' @ bsl @ ''linkicon}}''"

section \<open>The image store (\<open>ImageStore\<close>)\<close>

text \<open>
  An \<open>img\<close> element is its attribute mapping and its list of classes. The network, the
  decoders and the image codec are the outside world of a call: \<open>http_get\<close> is
  \<open>requests.get\<close> followed by \<open>raise_for_status\<close>, returning the content and the
  \<open>content-type\<close> header, or nothing when either raises; \<open>b64decode\<close> returns nothing when
  the decoder raises; \<open>webp_to_png\<close> returns nothing when the codec is missing or fails.
  Each call of \<open>fetch\<close> takes its own world, since the network may answer differently
  each time.

  The store is the page URL, the cache and the counter. The cache is a dictionary that
  \<open>fetch\<close> only extends, and only by a key it has just found absent: it is the list of
  its items in insertion order, read with \<open>map_of\<close>. \<open>fetch\<close> returns, with its result
  and the store, what it did outside the store: the calls of \<open>_download\<close> and the files
  written, named relative to the output directory. Messages printed to the error stream
  are left out.
\<close>

record img_node =
  img_attrs :: "string \<rightharpoonup> string"
  img_class :: "string list"

definition get_attr :: "img_node \<Rightarrow> string \<Rightarrow> string" where
  "get_attr img attr = (case img_attrs img attr of None \<Rightarrow> [] | Some v \<Rightarrow> v)"

fun join :: "string \<Rightarrow> string list \<Rightarrow> string" where
  "join sep [] = []"
| "join sep [x] = x"
| "join sep (x # y # xs) = x @ sep @ join sep (y # xs)"

definition parse_dimension :: "string option \<Rightarrow> nat" where
  "parse_dimension v =
     (case v of
        None \<Rightarrow> 0
      | Some s \<Rightarrow> (case first_number s of Some ds \<Rightarrow> int_of_digits ds | None \<Rightarrow> 0))"

definition pick_source :: "img_node \<Rightarrow> string" where
  "pick_source img =
     (case filter (\<lambda>v. v \<noteq> [])
             (map (\<lambda>attr. collapse_ws (get_attr img attr))
                [''src'', ''data-src'', ''data-lazy-src'', ''data-original'']) of
        v # vs \<Rightarrow> v
      | [] \<Rightarrow>
          let srcset = collapse_ws (get_attr img ''srcset'')
          in if srcset \<noteq> [] then
               let first = strip (fst (split_once (CHR '','') srcset))
               in strip (fst (split_once (CHR '' '') first))
             else [])"

definition should_include :: "img_node \<Rightarrow> string \<Rightarrow> bool" where
  "should_include img src =
     (let cls = lower (join '' '' (img_class img))
      in if list_ex (\<lambda>token. contains token cls) [''avatar'', ''icon'', ''logo'', ''emoji''] then False
         else
           let lower_src = lower src
           in if contains ''avatar'' lower_src
                   \<and> \<not> contains ''substack-post-media.s3.amazonaws.com'' lower_src then False
              else
                let w = parse_dimension (img_attrs img ''width'');
                    h = parse_dimension (img_attrs img ''height'')
                in if w \<noteq> 0 \<and> h \<noteq> 0 \<and> max w h \<le> 80 then False else True)"

record world =
  http_get :: "string \<Rightarrow> (string \<times> string) option"
  b64decode :: "string \<Rightarrow> string option"
  unquote_to_bytes :: "string \<Rightarrow> string"
  webp_to_png :: "string \<Rightarrow> string option"

record image_store =
  img_page_url :: string
  cache :: "(string \<times> string) list"
  counter :: nat

definition new_image_store :: "string \<Rightarrow> image_store" where
  "new_image_store url = \<lparr>img_page_url = url, cache = [], counter = 0\<rparr>"

datatype event = Download string | WriteFile string string

definition resolve_source :: "urllib \<Rightarrow> image_store \<Rightarrow> string \<Rightarrow> string" where
  "resolve_source lib self src =
     (if startswith ''data:image/'' src then src
      else
        let src = (if startswith ''//'' src then ''https:'' @ src else src)
        in urljoin lib (img_page_url self) src)"

definition download :: "world \<Rightarrow> string \<Rightarrow> string option \<times> string" where
  "download net resolved =
     (if startswith ''data:image/'' resolved then
        (case split_once (CHR '','') resolved of
           (header, None) \<Rightarrow> (None, [])
         | (header, Some payload) \<Rightarrow>
             let content_type = lower (replace_first ''data:'' [] (fst (split_once (CHR '';'') header)))
             in if contains '';base64'' header then
                  (case b64decode net payload of
                     Some data \<Rightarrow> (Some data, content_type)
                   | None \<Rightarrow> (None, content_type))
                else (Some (unquote_to_bytes net payload), content_type))
      else
        (case http_get net resolved of
           None \<Rightarrow> (None, [])
         | Some (content, header) \<Rightarrow>
             (Some content, lower (strip (fst (split_once (CHR '';'') header))))))"

definition CONTENT_TYPE_IMAGE_EXT :: "(string \<times> string) list" where
  "CONTENT_TYPE_IMAGE_EXT =
     [(''image/jpeg'', ''.jpg''), (''image/jpg'', ''.jpg''), (''image/png'', ''.png''),
      (''application/pdf'', ''.pdf''), (''image/webp'', ''.webp'')]"

definition LATEX_IMAGE_EXTS :: "string list" where
  "LATEX_IMAGE_EXTS = [''.jpg'', ''.jpeg'', ''.png'', ''.pdf'']"

definition infer_extension :: "urllib \<Rightarrow> string \<Rightarrow> string \<Rightarrow> string" where
  "infer_extension lib resolved content_type =
     (case map_of CONTENT_TYPE_IMAGE_EXT content_type of
        Some ext \<Rightarrow> ext
      | None \<Rightarrow>
          if endswith ''+xml'' content_type \<and> contains ''svg'' content_type then ''.svg''
          else
            let parsed = urlparse lib resolved;
                suffix = lower (path_suffix lib (urlpath parsed))
            in if suffix \<in> set [''.jpeg'', ''.jpg'', ''.png'', ''.pdf'', ''.webp'', ''.svg'']
               then suffix else ''.jpg'')"

definition convert_webp :: "world \<Rightarrow> string \<Rightarrow> string \<times> string" where
  "convert_webp net data =
     (case webp_to_png net data of None \<Rightarrow> ([], ''.skip'') | Some png \<Rightarrow> (png, ''.png''))"

definition fetch :: "urllib \<Rightarrow> world \<Rightarrow> img_node \<Rightarrow> image_store \<Rightarrow> string option \<times> image_store \<times> event list" where
  "fetch lib net img self =
     (let src = pick_source img
      in if src = [] then (None, self, [])
         else if \<not> should_include img src then (None, self, [])
         else
           let resolved = resolve_source lib self src
           in if resolved = [] then (None, self, [])
              else
                (case map_of (cache self) resolved of
                   Some rel \<Rightarrow> (Some rel, self, [])
                 | None \<Rightarrow>
                     (case download net resolved of
                        (None, content_type) \<Rightarrow> (None, self, [Download resolved])
                      | (Some data, content_type) \<Rightarrow>
                          let ext = infer_extension lib resolved content_type;
                              (data, ext) = (if ext = ''.webp'' then convert_webp net data
                                             else (data, ext))
                          in if ext \<notin> set LATEX_IMAGE_EXTS then (None, self, [Download resolved])
                             else
                               let n = counter self + 1;
                                   filename = ''image-'' @ zero_pad 3 n @ ext;
                                   rel = ''elegant-print-assets/'' @ filename
                               in (Some rel,
                                   self\<lparr>counter := n, cache := cache self @ [(resolved, rel)]\<rparr>,
                                   [Download resolved, WriteFile rel data]))))"

fun fetch_all ::
  "urllib \<Rightarrow> (world \<times> img_node) list \<Rightarrow> image_store \<Rightarrow> string option list \<times> image_store \<times> event list" where
  "fetch_all lib [] self = ([], self, [])"
| "fetch_all lib (call # calls) self =
     (case fetch lib (fst call) (snd call) self of
        (r, self1, ev1) \<Rightarrow>
          (case fetch_all lib calls self1 of
             (rs, self2, ev2) \<Rightarrow> (r # rs, self2, ev1 @ ev2)))"

definition escape_url_for_url :: "string \<Rightarrow> string" where
  "escape_url_for_url u =
     replace_char (CHR ''}'') (bsl @ ''}'')
       (replace_char (CHR ''{'') (bsl @ ''{'')
          (replace_char (CHR 0x5C) (bsl @ ''textbackslash{}'') u))"

definition render_image_block :: "string \<Rightarrow> string \<Rightarrow> string" where
  "render_image_block image_path caption_tex =
     (let path_tex = escape_url_for_url image_path;
          block = bsl @ ''begin{center}'' @ nl
                    @ bsl @ ''includegraphics[width=0.96'' @ bsl @ ''linewidth,keepaspectratio]{''
                    @ path_tex @ ''}'' @ nl
                    @ bsl @ ''end{center}'' @ nl;
          block = (if caption_tex \<noteq> []
                   then block @ bsl @ ''begin{center}'' @ bsl @ ''small'' @ bsl @ ''itshape ''
                          @ caption_tex @ bsl @ ''end{center}'' @ nl
                   else block)
      in block @ nl)"

definition render_image_tag ::
  "urllib \<Rightarrow> world \<Rightarrow> img_node \<Rightarrow> string \<Rightarrow> image_store \<Rightarrow> string \<times> image_store \<times> event list" where
  "render_image_tag lib net node caption_tex image_store =
     (case fetch lib net node image_store of
        (None, self, ev) \<Rightarrow> ([], self, ev)
      | (Some image_path, self, ev) \<Rightarrow>
          if image_path = [] then ([], self, ev)
          else
            let final_caption = collapse_ws caption_tex;
                final_caption =
                  (if final_caption = [] then
                     let alt = collapse_ws (get_attr node ''alt'')
                     in if alt \<noteq> [] \<and> lower alt \<notin> {''image'', ''photo''}
                        then latex_escape_plain alt else final_caption
                   else final_caption)
            in (render_image_block image_path final_caption, self, ev))"


section \<open>Inputs of the examples\<close>

text \<open>
  An instance of the URL library for the examples, for absolute \<open>http\<close> and \<open>https\<close> URLs
  without a query and for references that are a fragment only: the fragment is the text
  after the first \<open>#\<close>, the host the text between the scheme and the next slash, and
  joining a fragment reference replaces the fragment of the base. The theorems do not
  depend on it.
\<close>

definition example_urlparse :: "string \<Rightarrow> url" where
  "example_urlparse s =
     (let (front, frag) = split_once (CHR ''#'') s;
          rest = (if startswith ''https://'' front then Some (drop 8 front)
                  else if startswith ''http://'' front then Some (drop 7 front)
                  else None)
      in \<lparr>netloc = (case rest of None \<Rightarrow> [] | Some r \<Rightarrow> takeWhile (\<lambda>c. c \<noteq> CHR ''/'') r),
          urlpath = (case rest of None \<Rightarrow> front | Some r \<Rightarrow> dropWhile (\<lambda>c. c \<noteq> CHR ''/'') r),
          fragment = (case frag of None \<Rightarrow> [] | Some f \<Rightarrow> f)\<rparr>)"

definition example_urljoin :: "string \<Rightarrow> string \<Rightarrow> string" where
  "example_urljoin base href =
     (if startswith ''#'' href then fst (split_once (CHR ''#'') base) @ href else href)"

definition example_path_suffix :: "string \<Rightarrow> string" where
  "example_path_suffix p =
     (let name = rev (takeWhile (\<lambda>c. c \<noteq> CHR ''/'') (rev p))
      in if CHR ''.'' \<in> set name then CHR ''.'' # rev (takeWhile (\<lambda>c. c \<noteq> CHR ''.'') (rev name)) else [])"

definition example_lib :: urllib where
  "example_lib = \<lparr>urlparse = example_urlparse, urljoin = example_urljoin,
                   requote_uri = (\<lambda>s. s), path_suffix = example_path_suffix\<rparr>"

definition example_page :: string where
  "example_page = ''https://example.com/post''"

definition example_ps :: "p_footnote list" where
  "example_ps = [\<lparr>p_id = ''fn-a'', p_span = Some ''1'', p_content = ''First note''\<rparr>]"

definition example_divs :: "div_footnote list" where
  "example_divs =
     [\<lparr>div_id = ''footnote-2'',
       div_number_link = Some \<lparr>link_id = ''footnote-2-link'', link_href = ''#footnote-anchor-2'',
                                 link_text = ''2''\<rparr>,
       div_content = ''Second  note''\<rparr>]"


definition spaced_id_ps :: "p_footnote list" where
  "spaced_id_ps = [\<lparr>p_id = '' x'', p_span = Some ''1'', p_content = ''Body''\<rparr>]"

definition renumbered_ps :: "p_footnote list" where
  "renumbered_ps =
     [\<lparr>p_id = ''a'', p_span = Some ''1'', p_content = ''First''\<rparr>,
      \<lparr>p_id = ''b'', p_span = Some ''1'', p_content = ''Second''\<rparr>]"

definition example_link :: number_link where
  "example_link = \<lparr>link_id = '''', link_href = ''#footnote-7'', link_text = ''3''\<rparr>"

definition example_div :: div_footnote where
  "example_div = \<lparr>div_id = ''fn'', div_number_link = Some example_link, div_content = ''Body''\<rparr>"

definition pages25 :: "nat list" where
  "pages25 = [1..<26]"

definition no_converter :: converter where
  "no_converter = \<lparr>footnotes_by_number = Map.empty, footnotes_by_id = Map.empty, conv_page_url = example_page\<rparr>"

definition ordinal_sup :: sup_node where
  "ordinal_sup = \<lparr>sup_class = [], sup_text = ''th'', sup_links = []\<rparr>"

definition unlinked_ref :: sup_node where
  "unlinked_ref = \<lparr>sup_class = [''reference''], sup_text = ''[citation needed]'', sup_links = []\<rparr>"

definition lettered_ref :: sup_node where
  "lettered_ref = \<lparr>sup_class = [''reference''], sup_text = ''[a]'', sup_links = [(''#cite-a'', ''[a]'')]\<rparr>"

definition online :: world where
  "online =
     \<lparr>http_get = (\<lambda>u. Some (''bytes of '' @ u, ''image/png; charset=binary'')),
      b64decode = (\<lambda>s. Some s), unquote_to_bytes = (\<lambda>s. s), webp_to_png = (\<lambda>d. Some d)\<rparr>"

definition offline :: world where
  "offline = \<lparr>http_get = (\<lambda>u. None), b64decode = (\<lambda>s. None),
               unquote_to_bytes = (\<lambda>s. s), webp_to_png = (\<lambda>d. None)\<rparr>"

definition svg_server :: world where
  "svg_server = online\<lparr>http_get := (\<lambda>u. Some (''<svg/>'', ''image/svg+xml''))\<rparr>"

definition webp_server :: world where
  "webp_server = offline\<lparr>http_get := (\<lambda>u. Some (''RIFF'', ''image/webp''))\<rparr>"

definition plain_img :: "string \<Rightarrow> img_node" where
  "plain_img src = \<lparr>img_attrs = [''src'' \<mapsto> src], img_class = []\<rparr>"

definition sized_img :: "string \<Rightarrow> string \<Rightarrow> string \<Rightarrow> img_node" where
  "sized_img src w h =
     \<lparr>img_attrs = [''src'' \<mapsto> src, ''width'' \<mapsto> w, ''height'' \<mapsto> h], img_class = []\<rparr>"

definition lazy_img :: "string \<Rightarrow> img_node" where
  "lazy_img src = \<lparr>img_attrs = [''data-src'' \<mapsto> src, ''alt'' \<mapsto> ''Photo''], img_class = [''wide'']\<rparr>"

definition icon_img :: "string \<Rightarrow> img_node" where
  "icon_img src = \<lparr>img_attrs = [''src'' \<mapsto> src], img_class = [''share-icon'']\<rparr>"

definition a_png :: string where
  "a_png = ''https://example.com/a.png''"

definition b_jpg :: string where
  "b_jpg = ''https://example.com/b.jpg''"

definition store0 :: image_store where
  "store0 = new_image_store example_page"

definition store1 :: image_store where
  "store1 = \<lparr>img_page_url = example_page,
              cache = [(a_png, ''elegant-print-assets/image-001.png'')], counter = 1\<rparr>"


definition store2 :: image_store where
  "store2 = \<lparr>img_page_url = example_page,
              cache = [(a_png, ''elegant-print-assets/image-001.png''),
                       (b_jpg, ''elegant-print-assets/image-002.png'')],
              counter = 2\<rparr>"

section \<open>Properties of the flow packer\<close>

lemma hybridcols_neq: "hybridcols chunk \<noteq> chunk"
proof
  assume "hybridcols chunk = chunk"
  then have "length (hybridcols chunk) = length chunk" by simp
  then show False by (simp add: hybridcols_def bsl_def nl_def)
qed

text \<open>
  Claim C1. A flush of an empty buffer changes nothing. A flush of a non-empty buffer
  appends exactly one block to the output and empties the buffer; the block is the
  buffered content wrapped as a multi-column region if and only if hybrid layout is on
  and (\<open>flow_blocks \<ge> 2\<close> and \<open>flow_words \<ge> 110\<close>) or \<open>flow_words \<ge> 180\<close>, and it is the
  plain buffered content (single-column flow) in every other case, so always when hybrid
  layout is off.
\<close>

theorem flush_flow_layout:
  "(flow_parts st = [] \<longrightarrow> flush_flow hybrid st = st) \<and>
   (flow_parts st \<noteq> [] \<longrightarrow>
      (parts (flush_flow hybrid st) = parts st @ [hybridcols (concat (flow_parts st))]
         \<longleftrightarrow> hybrid \<and> ((2 \<le> flow_blocks st \<and> 110 \<le> flow_words st) \<or> 180 \<le> flow_words st)) \<and>
      (parts (flush_flow hybrid st) = parts st @ [concat (flow_parts st)]
         \<longleftrightarrow> \<not> (hybrid \<and> ((2 \<le> flow_blocks st \<and> 110 \<le> flow_words st) \<or> 180 \<le> flow_words st))) \<and>
      flow_parts (flush_flow hybrid st) = [] \<and>
      flow_words (flush_flow hybrid st) = 0 \<and>
      flow_blocks (flush_flow hybrid st) = 0)"
  using hybridcols_neq [of "concat (flow_parts st)"]
  by (auto simp: flush_flow_def Let_def)

text \<open>
  The instances the specification names, on a buffer holding one block of text:
  one block of 200 words is packed, three blocks of 100 words are not, and the
  thresholds are 110 (two blocks or more) and 180 (any number of blocks).
\<close>

theorem flush_flow_layout_witness:
  "parts (flush_flow True \<lparr>parts = [], flow_parts = [''p''], flow_words = 200, flow_blocks = 1\<rparr>)
     = [hybridcols ''p''] \<and>
   parts (flush_flow True \<lparr>parts = [], flow_parts = [''p'', ''q'', ''r''], flow_words = 100, flow_blocks = 3\<rparr>)
     = [''pqr''] \<and>
   parts (flush_flow True \<lparr>parts = [], flow_parts = [''p'', ''q''], flow_words = 109, flow_blocks = 2\<rparr>)
     = [''pq''] \<and>
   parts (flush_flow True \<lparr>parts = [], flow_parts = [''p'', ''q''], flow_words = 110, flow_blocks = 2\<rparr>)
     = [hybridcols ''pq''] \<and>
   parts (flush_flow True \<lparr>parts = [], flow_parts = [''p''], flow_words = 179, flow_blocks = 1\<rparr>)
     = [''p''] \<and>
   parts (flush_flow True \<lparr>parts = [], flow_parts = [''p''], flow_words = 180, flow_blocks = 1\<rparr>)
     = [hybridcols ''p''] \<and>
   parts (flush_flow False \<lparr>parts = [], flow_parts = [''p''], flow_words = 200, flow_blocks = 1\<rparr>)
     = [''p''] \<and>
   flush_flow True flow_init = flow_init"
  using flush_flow_layout [of "\<lparr>parts = [], flow_parts = [''p''], flow_words = 200, flow_blocks = 1\<rparr>" True]
    flush_flow_layout [of "\<lparr>parts = [], flow_parts = [''p'', ''q'', ''r''], flow_words = 100, flow_blocks = 3\<rparr>" True]
    flush_flow_layout [of "\<lparr>parts = [], flow_parts = [''p'', ''q''], flow_words = 109, flow_blocks = 2\<rparr>" True]
    flush_flow_layout [of "\<lparr>parts = [], flow_parts = [''p'', ''q''], flow_words = 110, flow_blocks = 2\<rparr>" True]
    flush_flow_layout [of "\<lparr>parts = [], flow_parts = [''p''], flow_words = 179, flow_blocks = 1\<rparr>" True]
    flush_flow_layout [of "\<lparr>parts = [], flow_parts = [''p''], flow_words = 180, flow_blocks = 1\<rparr>" True]
    flush_flow_layout [of "\<lparr>parts = [], flow_parts = [''p''], flow_words = 200, flow_blocks = 1\<rparr>" False]
    flush_flow_layout [of flow_init True]
  by (simp add: flow_init_def)

section \<open>Properties of the booklet splitter\<close>

lemma ceil_div_bounds:
  assumes "0 < c"
  shows "T \<le> ceil_div T c * c" and "0 < T \<Longrightarrow> (ceil_div T c - 1) * c < T"
proof -
  have eq: "T + c - 1 = (T + c - 1) div c * c + (T + c - 1) mod c" by simp
  have lt: "(T + c - 1) mod c < c" using assms by simp
  show "T \<le> ceil_div T c * c" unfolding ceil_div_def using eq lt by linarith
  assume T: "0 < T"
  define q where "q = (T + c - 1) div c"
  have a: "q * c \<le> T + c - 1" unfolding q_def by simp
  have b: "1 \<le> q" unfolding q_def
    using assms T by (simp add: Suc_leI div_greater_zero_iff)
  have "(q - 1) * c = q * c - c" by (simp add: diff_mult_distrib)
  then have "(q - 1) * c < T" using a b assms T by linarith
  then show "(ceil_div T c - 1) * c < T"
    unfolding ceil_div_def q_def .
qed

lemma ceil_div_ceiling:
  assumes "0 < c" "0 < T"
  shows "int (ceil_div T c) = \<lceil>real T / real c\<rceil>"
proof -
  let ?n = "ceil_div T c"
  have pos: "1 \<le> ?n" using ceil_div_bounds(1)[OF assms(1), of T] assms
    by (metis Suc_leI less_nat_zero_code mult_0 neq0_conv le_zero_eq One_nat_def)
  have up: "real T / real c \<le> real ?n"
    using ceil_div_bounds(1)[OF assms(1), of T] assms(1)
    by (simp add: pos_divide_le_eq) (metis of_nat_le_iff of_nat_mult)
  have lo: "real ?n - 1 < real T / real c"
  proof -
    have "real ((?n - 1) * c) < real T"
      using ceil_div_bounds(2)[OF assms] by (simp only: of_nat_less_iff)
    then have "(real ?n - 1) * real c < real T" using pos by (simp add: of_nat_diff)
    then show ?thesis using assms(1) by (simp add: pos_less_divide_eq)
  qed
  have "\<lceil>real T / real c\<rceil> = int ?n"
    by (rule ceiling_unique) (use up lo in simp_all)
  then show ?thesis by simp
qed

lemma foldl_write_section:
  "foldl (write_section reader outdir basename paper title c n) (ps, out) [0..<k] =
     (ps @ map (section_path outdir basename n) [0..<k],
      out\<lparr>covers := covers out @ map (section_cover title paper c (length reader) n) [0..<k],
          files := files out @
            map (\<lambda>i. (section_path outdir basename n i,
                       CoverPage (section_cover title paper c (length reader) n i)
                         # section_content reader c i)) [0..<k]\<rparr>)"
  by (induction k) (simp_all add: write_section_def Let_def)

lemma concat_ranges:
  "concat (map (\<lambda>i. [i * c..<min ((i + 1) * c) T]) [0..<n]) = [0..<min (n * c) T]"
proof (induction n)
  case 0
  then show ?case by simp
next
  case (Suc n)
  show ?case
  proof (cases "n * c \<le> T")
    case True
    then have "[0..<n * c] @ [n * c..<min (Suc n * c) T] = [0..<min (Suc n * c) T]"
      by (metis le_add2 min.boundedI mult_Suc upt_add_eq_append zero_le le_iff_add)
    with Suc True show ?thesis by (simp add: min_def)
  next
    case False
    with Suc show ?thesis by (simp add: min_def)
  qed
qed

lemma content_pages_map [simp]: "content_pages (map (\<lambda>x. ContentPage (f x)) xs) = map f xs"
  by (induction xs) simp_all

lemma section_content_eq:
  "section_content reader c i =
     map ContentPage (map ((!) reader) [i * c..<min ((i + 1) * c) (length reader)])"
  by (simp add: section_content_def Let_def)

lemma content_reconstructs:
  assumes "length reader \<le> n * c"
  shows "concat (map (\<lambda>i. content_pages (section_content reader c i)) [0..<n]) = reader"
proof -
  have "concat (map (\<lambda>i. content_pages (section_content reader c i)) [0..<n])
      = map ((!) reader) (concat (map (\<lambda>i. [i * c..<min ((i + 1) * c) (length reader)]) [0..<n]))"
    by (simp add: section_content_eq map_concat comp_def)
  also have "\<dots> = map ((!) reader) [0..<length reader]"
    using assms by (simp only: concat_ranges min_absorb2)
  finally show ?thesis by (simp add: map_nth)
qed


lemma write_stapled_sections_ok:
  assumes "2 \<le> S"
  shows "write_stapled_sections reader outdir basename paper S title out =
     (let c = nat (S - 1); n = max 1 (ceil_div (length reader) c) in
      (Inr (map (section_path outdir basename n) [0..<n]),
       out\<lparr>covers := covers out @ map (section_cover title paper c (length reader) n) [0..<n],
           files := files out @
             map (\<lambda>i. (section_path outdir basename n i,
                        CoverPage (section_cover title paper c (length reader) n i)
                          # section_content reader c i)) [0..<n]\<rparr>))"
proof -
  have "max 1 (S - 1) = S - 1" using assms by simp
  then show ?thesis
    using assms by (simp add: write_stapled_sections_def Let_def foldl_write_section)
qed

lemma section_full:
  assumes c: "0 < c" and T: "0 < T" and i: "i + 1 < ceil_div T c"
  shows "(i + 1) * c < T"
proof -
  have "(i + 1) * c \<le> (ceil_div T c - 1) * c" using i by (intro mult_le_mono1) simp
  also have "\<dots> < T" by (rule ceil_div_bounds(2)[OF c T])
  finally show ?thesis .
qed

lemma section_nonempty:
  assumes c: "0 < c" and T: "0 < T" and i: "i < ceil_div T c"
  shows "i * c < T"
proof -
  have "i * c \<le> (ceil_div T c - 1) * c" using i by (intro mult_le_mono1) simp
  also have "\<dots> < T" by (rule ceil_div_bounds(2)[OF c T])
  finally show ?thesis .
qed

lemma ceil_div_pos: "0 < c \<Longrightarrow> 0 < T \<Longrightarrow> 1 \<le> ceil_div T c"
  using ceil_div_bounds(1)[of c T] by (cases "ceil_div T c") simp_all

text \<open>
  Claim C2. For a document of \<open>T \<ge> 1\<close> pages and a section size \<open>S \<ge> 2\<close> the splitter
  returns without error and writes \<open>\<lceil>T / (S - 1)\<rceil>\<close> section files. Section \<open>i\<close> (from 0)
  is one generated cover page followed by the pages of the document at the indices
  \<open>i * (S - 1)\<close> up to, not including, \<open>min ((i + 1) * (S - 1)) T\<close>, in document order; its
  cover states \<open>i + 1\<close>, the number of sections and the range counted from 1. Every
  section holds at least one and at most \<open>S - 1\<close> content pages, every section but the
  last exactly \<open>S - 1\<close>, and the content pages of the sections, concatenated in section
  order, are the document.
\<close>

theorem booklet_partition:
  assumes T: "1 \<le> length reader" and S: "2 \<le> S"
  shows "\<exists>paths out.
     write_stapled_sections reader outdir basename paper S title no_outputs = (Inr paths, out) \<and>
     int (length (files out)) = \<lceil>real (length reader) / real_of_int (S - 1)\<rceil> \<and>
     length (covers out) = length (files out) \<and>
     map fst (files out) = paths \<and>
     (\<forall>i < length (files out).
        snd (files out ! i) =
          CoverPage (covers out ! i)
            # map (\<lambda>j. ContentPage (reader ! j))
                [i * nat (S - 1)..<min ((i + 1) * nat (S - 1)) (length reader)] \<and>
        covers out ! i =
          \<lparr>cover_title = title, booklet_idx = i + 1, booklet_total = length (files out),
             content_start = i * nat (S - 1) + 1,
             content_end = min ((i + 1) * nat (S - 1)) (length reader), cover_paper = paper\<rparr> \<and>
        1 \<le> length (content_pages (snd (files out ! i))) \<and>
        length (content_pages (snd (files out ! i))) \<le> nat (S - 1) \<and>
        (i + 1 < length (files out) \<longrightarrow>
           length (content_pages (snd (files out ! i))) = nat (S - 1))) \<and>
     concat (map (\<lambda>f. content_pages (snd f)) (files out)) = reader"
proof -
  define c where "c = nat (S - 1)"
  define n where "n = ceil_div (length reader) c"
  have c: "0 < c" using S by (simp add: c_def)
  have Tpos: "0 < length reader" using T by (cases reader) simp_all
  have n1: "1 \<le> n" unfolding n_def by (rule ceil_div_pos[OF c Tpos])
  then have mx: "max 1 n = n" by simp
  define out :: "'a outputs" where
    "out = \<lparr>covers = map (section_cover title paper c (length reader) n) [0..<n],
           files =
             map (\<lambda>i. (section_path outdir basename n i,
                        CoverPage (section_cover title paper c (length reader) n i)
                          # section_content reader c i)) [0..<n]\<rparr>"
  have run: "write_stapled_sections reader outdir basename paper S title no_outputs
      = (Inr (map (section_path outdir basename n) [0..<n]), out)"
    using write_stapled_sections_ok[OF S, of reader outdir basename paper title no_outputs] mx
    by (simp add: Let_def c_def[symmetric] n_def[symmetric] out_def no_outputs_def)
  have len: "length (files out) = n" by (simp add: out_def)
  have lenc: "length (covers out) = n" by (simp add: out_def)
  have cnt: "int n = \<lceil>real (length reader) / real_of_int (S - 1)\<rceil>"
  proof -
    have "real c = real_of_int (S - 1)" using S by (simp add: c_def)
    then show ?thesis using ceil_div_ceiling[OF c Tpos] by (simp add: n_def)
  qed
  have paths: "map fst (files out) = map (section_path outdir basename n) [0..<n]"
    by (simp add: out_def comp_def)
  have sec: "snd (files out ! i) =
          CoverPage (covers out ! i)
            # map (\<lambda>j. ContentPage (reader ! j)) [i * c..<min ((i + 1) * c) (length reader)]"
    if "i < n" for i
    using that by (simp add: out_def section_content_def Let_def)
  have cov: "covers out ! i =
          \<lparr>cover_title = title, booklet_idx = i + 1, booklet_total = n,
             content_start = i * c + 1,
             content_end = min ((i + 1) * c) (length reader), cover_paper = paper\<rparr>"
    if "i < n" for i
    using that by (simp add: out_def section_cover_def Let_def)
  have cp: "length (content_pages (snd (files out ! i))) = min ((i + 1) * c) (length reader) - i * c"
    if "i < n" for i
    using sec[OF that] by simp
  have ne: "1 \<le> length (content_pages (snd (files out ! i)))" if "i < n" for i
  proof -
    have "i * c < length reader" using section_nonempty[OF c Tpos] that by (simp add: n_def)
    then show ?thesis using cp[OF that] c by (auto simp: min_def)
  qed
  have le: "length (content_pages (snd (files out ! i))) \<le> c" if "i < n" for i
    using cp[OF that] by (auto simp: min_def)
  have full: "length (content_pages (snd (files out ! i))) = c" if "i + 1 < n" for i
  proof -
    have "(i + 1) * c < length reader" using section_full[OF c Tpos] that by (simp add: n_def)
    moreover have "i < n" using that by simp
    ultimately show ?thesis using cp[of i] by (auto simp: min_def)
  qed
  have "length reader \<le> n * c" unfolding n_def by (rule ceil_div_bounds(1)[OF c])
  then have rec: "concat (map (\<lambda>f. content_pages (snd f)) (files out)) = reader"
    using content_reconstructs[of reader n c]
    by (simp add: out_def comp_def)
  show ?thesis
    apply (rule exI[of _ "map (section_path outdir basename n) [0..<n]"])
    apply (rule exI[of _ out])
    using run len lenc cnt paths sec cov ne le full rec
    by (simp add: c_def[symmetric])
qed


text \<open>
  The instance of the specification: 25 pages (numbered 1 to 25) and a section size of
  6 give five sections, covering the pages 1-5, 6-10, 11-15, 16-20 and 21-25.
\<close>

lemma run25:
  "write_stapled_sections pages25 ''out'' ''elegant-print'' ''letter'' 6 ''Title'' no_outputs =
    (Inr [''out/elegant-print-section-01-of-05.pdf'', ''out/elegant-print-section-02-of-05.pdf'',
          ''out/elegant-print-section-03-of-05.pdf'', ''out/elegant-print-section-04-of-05.pdf'',
          ''out/elegant-print-section-05-of-05.pdf''],
     \<lparr>covers = map (\<lambda>(k, a, b). \<lparr>cover_title = ''Title'', booklet_idx = k, booklet_total = 5,
                  content_start = a, content_end = b, cover_paper = ''letter''\<rparr>)
                [(1, 1, 5), (2, 6, 10), (3, 11, 15), (4, 16, 20), (5, 21, 25)],
      files = map (\<lambda>(k, a, b). (''out/elegant-print-section-0'' @ str_nat k @ ''-of-05.pdf'',
                  CoverPage \<lparr>cover_title = ''Title'', booklet_idx = k, booklet_total = 5,
                     content_start = a, content_end = b, cover_paper = ''letter''\<rparr>
                  # map ContentPage [a..<b + 1]))
                [(1, 1, 5), (2, 6, 10), (3, 11, 15), (4, 16, 20), (5, 21, 25)]\<rparr>)"
  by code_simp

theorem booklet_partition_witness:
  "1 \<le> length pages25 \<and> (2::int) \<le> 6 \<and>
   (\<exists>paths out.
      write_stapled_sections pages25 ''out'' ''elegant-print'' ''letter'' 6 ''Title'' no_outputs
        = (Inr paths, out) \<and>
      length (files out) = 5 \<and>
      map (\<lambda>c. (booklet_idx c, booklet_total c, content_start c, content_end c)) (covers out)
        = [(1, 5, 1, 5), (2, 5, 6, 10), (3, 5, 11, 15), (4, 5, 16, 20), (5, 5, 21, 25)] \<and>
      map (\<lambda>f. content_pages (snd f)) (files out)
        = [[1, 2, 3, 4, 5], [6, 7, 8, 9, 10], [11, 12, 13, 14, 15], [16, 17, 18, 19, 20],
           [21, 22, 23, 24, 25]] \<and>
      concat (map (\<lambda>f. content_pages (snd f)) (files out)) = pages25)"
proof -
  have T: "1 \<le> length pages25" by (simp add: pages25_def)
  have S: "(2::int) \<le> 6" by simp
  from booklet_partition[OF T S, of "''out''" "''elegant-print''" "''letter''" "''Title''"]
  obtain paths out where
    run: "write_stapled_sections pages25 ''out'' ''elegant-print'' ''letter'' 6 ''Title'' no_outputs
            = (Inr paths, out)"
    and rec: "concat (map (\<lambda>f. content_pages (snd f)) (files out)) = pages25"
    by blast
  have out: "out = snd (write_stapled_sections pages25 ''out'' ''elegant-print'' ''letter'' 6 ''Title'' no_outputs)"
    using run by simp
  have len: "length (files out) = 5" unfolding out run25 by simp
  have cov: "map (\<lambda>c. (booklet_idx c, booklet_total c, content_start c, content_end c)) (covers out)
        = [(1, 5, 1, 5), (2, 5, 6, 10), (3, 5, 11, 15), (4, 5, 16, 20), (5, 5, 21, 25)]"
    unfolding out run25 by simp
  have cont: "map (\<lambda>f. content_pages (snd f)) (files out)
        = [[1, 2, 3, 4, 5], [6, 7, 8, 9, 10], [11, 12, 13, 14, 15], [16, 17, 18, 19, 20],
           [21, 22, 23, 24, 25]]"
    unfolding out run25 by (simp add: upt_rec)
  have "write_stapled_sections pages25 ''out'' ''elegant-print'' ''letter'' 6 ''Title'' no_outputs
            = (Inr paths, out) \<and>
      length (files out) = 5 \<and>
      map (\<lambda>c. (booklet_idx c, booklet_total c, content_start c, content_end c)) (covers out)
        = [(1, 5, 1, 5), (2, 5, 6, 10), (3, 5, 11, 15), (4, 5, 16, 20), (5, 5, 21, 25)] \<and>
      map (\<lambda>f. content_pages (snd f)) (files out)
        = [[1, 2, 3, 4, 5], [6, 7, 8, 9, 10], [11, 12, 13, 14, 15], [16, 17, 18, 19, 20],
           [21, 22, 23, 24, 25]] \<and>
      concat (map (\<lambda>f. content_pages (snd f)) (files out)) = pages25"
    using run rec len cov cont by (intro conjI)
  then have "\<exists>paths out.
      write_stapled_sections pages25 ''out'' ''elegant-print'' ''letter'' 6 ''Title'' no_outputs
        = (Inr paths, out) \<and>
      length (files out) = 5 \<and>
      map (\<lambda>c. (booklet_idx c, booklet_total c, content_start c, content_end c)) (covers out)
        = [(1, 5, 1, 5), (2, 5, 6, 10), (3, 5, 11, 15), (4, 5, 16, 20), (5, 5, 21, 25)] \<and>
      map (\<lambda>f. content_pages (snd f)) (files out)
        = [[1, 2, 3, 4, 5], [6, 7, 8, 9, 10], [11, 12, 13, 14, 15], [16, 17, 18, 19, 20],
           [21, 22, 23, 24, 25]] \<and>
      concat (map (\<lambda>f. content_pages (snd f)) (files out)) = pages25"
    by (intro exI)
  with T S show ?thesis by (intro conjI)
qed

text \<open>
  Claim C8. With a section size below 2 the splitter returns the configuration error
  and leaves the outputs as they were: no cover is compiled and no section file is
  written. With a section size of 2 or more it returns the list of the section paths,
  not the error.
\<close>

theorem section_size_guard:
  "(S < 2 \<longrightarrow>
      write_stapled_sections reader outdir basename paper S title out =
        (Inl (ValueError ''section_max_pages must be at least 2 to include a cover page.''), out)) \<and>
   (2 \<le> S \<longrightarrow>
      (\<exists>paths out'. write_stapled_sections reader outdir basename paper S title out = (Inr paths, out')))"
  by (simp add: write_stapled_sections_def Let_def)

theorem section_size_guard_witness:
  "write_stapled_sections pages25 ''out'' ''elegant-print'' ''letter'' 1 ''Title'' no_outputs =
     (Inl (ValueError ''section_max_pages must be at least 2 to include a cover page.''), no_outputs) \<and>
   write_stapled_sections pages25 ''out'' ''elegant-print'' ''letter'' (- 3) ''Title'' no_outputs =
     (Inl (ValueError ''section_max_pages must be at least 2 to include a cover page.''), no_outputs) \<and>
   (\<exists>paths out'. write_stapled_sections pages25 ''out'' ''elegant-print'' ''letter'' 2 ''Title'' no_outputs
      = (Inr paths, out'))"
  using section_size_guard[of 1 pages25 "''out''" "''elegant-print''" "''letter''" "''Title''" no_outputs]
    section_size_guard[of "- 3" pages25 "''out''" "''elegant-print''" "''letter''" "''Title''" no_outputs]
    section_size_guard[of 2 pages25 "''out''" "''elegant-print''" "''letter''" "''Title''" no_outputs]
  by simp

section \<open>Properties of the footnote resolver\<close>

lemma ids_fold_lookup:
  "foldl (\<lambda>m item. if collapse_ws item \<noteq> [] then m(collapse_ws item \<mapsto> text) else m) m ids k
     = (if k \<in> set (filter (\<lambda>key. key \<noteq> []) (map collapse_ws ids)) then Some text else m k)"
  by (induction ids arbitrary: m) auto

lemma register_ids_lookup:
  assumes "text \<noteq> []" "num \<noteq> 0"
  shows "register_ids text num ids by_id k =
           (if k \<in> set (alias_keys num ids) then Some text else by_id k)"
  using assms by (auto simp: register_ids_def Let_def ids_fold_lookup alias_keys_def)

lemma p_entry_registered: "p_entry p = Some (n, t, ids) \<Longrightarrow> n \<noteq> 0 \<and> t \<noteq> []"
  by (auto simp: p_entry_def Let_def split: if_splits option.splits prod.splits)

lemma div_entry_registered: "div_entry lib page_url d = Some (n, t, ids) \<Longrightarrow> n \<noteq> 0 \<and> t \<noteq> []"
  by (auto simp: div_entry_def Let_def split: if_splits prod.splits)

lemma registrations_registered:
  assumes "(n, t, ids) \<in> set (registrations lib page_url ps divs)"
  shows "n \<noteq> 0 \<and> t \<noteq> []"
proof -
  from assms consider p where "p_entry p = Some (n, t, ids)"
    | d where "div_entry lib page_url d = Some (n, t, ids)"
    by (auto simp: registrations_def List.map_filter_def)
  then show ?thesis
    by cases (blast dest: p_entry_registered, blast dest: div_entry_registered)
qed

lemma foldl_step_map_filter:
  "foldl (\<lambda>tabs x. case f x of None \<Rightarrow> tabs | Some r \<Rightarrow> register tabs r) tabs xs
     = foldl register tabs (List.map_filter f xs)"
  by (induction xs arbitrary: tabs) (auto simp: List.map_filter_def split: option.splits)

lemma build_as_registrations:
  "build_numbered_footnotes lib page_url ps divs
     = foldl register no_footnotes (registrations lib page_url ps divs)"
proof -
  have p: "p_footnote_step = (\<lambda>tabs x. case p_entry x of None \<Rightarrow> tabs | Some r \<Rightarrow> register tabs r)"
    by (intro ext) (simp add: p_footnote_step_def)
  have d: "div_footnote_step lib page_url
      = (\<lambda>tabs x. case div_entry lib page_url x of None \<Rightarrow> tabs | Some r \<Rightarrow> register tabs r)"
    by (intro ext) (simp add: div_footnote_step_def)
  show ?thesis
    unfolding build_numbered_footnotes_def registrations_def p d
    by (simp add: foldl_step_map_filter)
qed

lemma register_by_number:
  "footnotes_by_number (register tabs (n, t, ids)) k = (if k = n then Some t else footnotes_by_number tabs k)"
  by (simp add: register_def)

lemma register_by_id:
  assumes "t \<noteq> []" "n \<noteq> 0"
  shows "footnotes_by_id (register tabs (n, t, ids)) k =
           (if k \<in> set (alias_keys n ids) then Some t else footnotes_by_id tabs k)"
  using assms by (simp add: register_def register_ids_lookup)

lemma later_keep_number:
  assumes "\<forall>r \<in> set post. fst r \<noteq> N"
  shows "footnotes_by_number (foldl register tabs post) N = footnotes_by_number tabs N"
  using assms
proof (induction post arbitrary: tabs)
  case Nil
  then show ?case by simp
next
  case (Cons r post)
  obtain n t ids where r: "r = (n, t, ids)" by (cases r)
  with Cons show ?case by (simp add: register_by_number)
qed

lemma later_keep_id:
  assumes "\<forall>r \<in> set post. fst (snd r) \<noteq> [] \<and> fst r \<noteq> 0 \<and> k \<notin> set (alias_keys (fst r) (snd (snd r)))"
  shows "footnotes_by_id (foldl register tabs post) k = footnotes_by_id tabs k"
  using assms
proof (induction post arbitrary: tabs)
  case Nil
  then show ?case by simp
next
  case (Cons r post)
  obtain n t ids where r: "r = (n, t, ids)" by (cases r)
  with Cons show ?case by (simp add: register_by_id)
qed

text \<open>
  Claim C3, as amended. Take a footnote the resolver registers under the number \<open>N\<close>
  with the text \<open>t\<close> and the ids \<open>ids\<close> of the source markup, such that no footnote
  registered after it has the number \<open>N\<close> or writes one of its keys. Then \<open>N\<close> is not zero,
  \<open>t\<close> is not empty, and the tables the resolver returns map \<open>N\<close>, \<open>footnote-N\<close>,
  \<open>footnote-anchor-N\<close> and, for every id whose whitespace-collapsed form is not empty,
  that form to \<open>t\<close>.
\<close>

theorem footnote_aliases_agree:
  assumes regs: "registrations lib page_url ps divs = pre @ (N, t, ids) # post"
    and later: "\<forall>r \<in> set post. fst r \<noteq> N \<and>
                  set (alias_keys (fst r) (snd (snd r))) \<inter> set (alias_keys N ids) = {}"
  shows "N \<noteq> 0 \<and> t \<noteq> [] \<and>
     footnotes_by_number (build_numbered_footnotes lib page_url ps divs) N = Some t \<and>
     footnotes_by_id (build_numbered_footnotes lib page_url ps divs) (''footnote-'' @ str_nat N) = Some t \<and>
     footnotes_by_id (build_numbered_footnotes lib page_url ps divs) (''footnote-anchor-'' @ str_nat N) = Some t \<and>
     (\<forall>i \<in> set ids. collapse_ws i \<noteq> [] \<longrightarrow>
        footnotes_by_id (build_numbered_footnotes lib page_url ps divs) (collapse_ws i) = Some t)"
proof -
  let ?T = "build_numbered_footnotes lib page_url ps divs"
  let ?mid = "register (foldl register no_footnotes pre) (N, t, ids)"
  have mem: "(N, t, ids) \<in> set (registrations lib page_url ps divs)" by (simp add: regs)
  have Nt: "N \<noteq> 0 \<and> t \<noteq> []" by (rule registrations_registered[OF mem])
  have T: "?T = foldl register ?mid post"
    by (simp add: build_as_registrations regs)
  have num: "footnotes_by_number ?T N = Some t"
    unfolding T using later by (simp add: later_keep_number register_by_number)
  have key: "footnotes_by_id ?T k = Some t" if k: "k \<in> set (alias_keys N ids)" for k
  proof -
    have "\<forall>r \<in> set post. fst (snd r) \<noteq> [] \<and> fst r \<noteq> 0 \<and> k \<notin> set (alias_keys (fst r) (snd (snd r)))"
    proof
      fix r assume r: "r \<in> set post"
      obtain n' t' ids' where r': "r = (n', t', ids')" by (cases r)
      have "(n', t', ids') \<in> set (registrations lib page_url ps divs)"
        using r r' by (simp add: regs)
      then have "n' \<noteq> 0 \<and> t' \<noteq> []" by (rule registrations_registered)
      moreover have "set (alias_keys n' ids') \<inter> set (alias_keys N ids) = {}"
        using bspec[OF later r] by (simp add: r')
      then have "k \<notin> set (alias_keys n' ids')" using k by blast
      ultimately show "fst (snd r) \<noteq> [] \<and> fst r \<noteq> 0 \<and> k \<notin> set (alias_keys (fst r) (snd (snd r)))"
        by (simp add: r')
    qed
    then have "footnotes_by_id ?T k = footnotes_by_id ?mid k"
      unfolding T by (rule later_keep_id)
    also have "\<dots> = Some t" using Nt k by (simp add: register_by_id)
    finally show ?thesis .
  qed
  have a: "footnotes_by_id ?T (''footnote-'' @ str_nat N) = Some t"
    by (rule key) (simp add: alias_keys_def)
  have b: "footnotes_by_id ?T (''footnote-anchor-'' @ str_nat N) = Some t"
    by (rule key) (simp add: alias_keys_def)
  have c: "\<forall>i \<in> set ids. collapse_ws i \<noteq> [] \<longrightarrow> footnotes_by_id ?T (collapse_ws i) = Some t"
    by (auto intro!: key simp: alias_keys_def)
  show ?thesis using Nt num a b c by simp
qed

text \<open>
  An instance: a paragraph footnote numbered 1 with the id \<open>fn-a\<close>, followed by a block
  footnote numbered 2.
\<close>

lemma example_regs:
  "registrations example_lib example_page example_ps example_divs =
     [] @ (1, ''First note'', [''fn-a'']) #
       [(2, ''Second note'', [''footnote-2'', ''footnote-2-link'', ''footnote-anchor-2''])]"
  by code_simp

lemma example_later:
  "\<forall>r \<in> set [(2::nat, ''Second note'', [''footnote-2'', ''footnote-2-link'', ''footnote-anchor-2''])].
     fst r \<noteq> 1 \<and> set (alias_keys (fst r) (snd (snd r))) \<inter> set (alias_keys 1 [''fn-a'']) = {}"
  by code_simp

theorem footnote_aliases_agree_witness:
  "footnotes_by_number (build_numbered_footnotes example_lib example_page example_ps example_divs) 1
     = Some ''First note'' \<and>
   footnotes_by_id (build_numbered_footnotes example_lib example_page example_ps example_divs)
     ''footnote-1'' = Some ''First note'' \<and>
   footnotes_by_id (build_numbered_footnotes example_lib example_page example_ps example_divs)
     ''footnote-anchor-1'' = Some ''First note'' \<and>
   footnotes_by_id (build_numbered_footnotes example_lib example_page example_ps example_divs)
     ''fn-a'' = Some ''First note''"
proof -
  have one: "str_nat 1 = ''1''" by code_simp
  have key: "collapse_ws ''fn-a'' = ''fn-a''" by code_simp
  show ?thesis
    using footnote_aliases_agree [OF example_regs example_later, unfolded one]
    by (simp add: key)
qed


text \<open>
  The claim as stated fails twice. An id is stored under its whitespace-collapsed form:
  the footnote with the id \<open>" x"\<close> is found under \<open>"x"\<close> and not under its id. And a later
  footnote with the same number overwrites the number and the two synthetic ids but not
  the first footnote's own id: after two footnotes numbered 1, the number gives the
  second text and the id \<open>a\<close> of the first still gives the first text.
\<close>

lemma spaced_id_regs: "registrations example_lib example_page spaced_id_ps [] = [(1, ''Body'', ['' x''])]"
  by code_simp

lemma renumbered_regs:
  "registrations example_lib example_page renumbered_ps [] = [(1, ''First'', [''a'']), (1, ''Second'', [''b''])]"
  by code_simp

lemma str_nat_1: "str_nat (Suc 0) = ''1''"
  by code_simp

lemma collapse_ws_examples:
  "collapse_ws '' x'' = ''x''" "collapse_ws ''a'' = ''a''" "collapse_ws ''b'' = ''b''"
  by code_simp+

theorem footnote_aliases_counterexample:
  "registrations example_lib example_page spaced_id_ps [] = [(1, ''Body'', ['' x''])] \<and>
   footnotes_by_number (build_numbered_footnotes example_lib example_page spaced_id_ps []) 1 = Some ''Body'' \<and>
   footnotes_by_id (build_numbered_footnotes example_lib example_page spaced_id_ps []) '' x'' = None \<and>
   footnotes_by_id (build_numbered_footnotes example_lib example_page spaced_id_ps []) ''x'' = Some ''Body'' \<and>
   registrations example_lib example_page renumbered_ps []
     = [(1, ''First'', [''a'']), (1, ''Second'', [''b''])] \<and>
   footnotes_by_number (build_numbered_footnotes example_lib example_page renumbered_ps []) 1 = Some ''Second'' \<and>
   footnotes_by_id (build_numbered_footnotes example_lib example_page renumbered_ps []) ''a'' = Some ''First''"
  by (simp add: build_as_registrations spaced_id_regs renumbered_regs register_def register_ids_def
      no_footnotes_def str_nat_1 collapse_ws_examples)

text \<open>
  Claim C4, as amended. When the number link of a block footnote has a non-empty
  \<open>href\<close> whose fragment matches the pattern with a number that is not zero, that
  pattern-derived number is the footnote's number, whatever number the visible text of
  the link holds: the resolver stores the body under the pattern-derived number and
  changes no other entry of the table by number.
\<close>

theorem pattern_number_wins:
  assumes link: "div_number_link d = Some l"
    and href: "collapse_ws (link_href l) \<noteq> []"
    and pat: "search_footnote (fragment (urlparse lib (urljoin lib page_url (collapse_ws (link_href l)))))
                = Some ds"
    and nz: "int_of_digits ds \<noteq> 0"
    and body: "collapse_ws (div_content d) \<noteq> []"
  shows "fst (div_number lib page_url d) = int_of_digits ds \<and>
         footnotes_by_number (div_footnote_step lib page_url tabs d)
           = (footnotes_by_number tabs)(int_of_digits ds \<mapsto> collapse_ws (div_content d))"
proof -
  have num: "fst (div_number lib page_url d) = int_of_digits ds"
    using link href pat nz by (simp add: div_number_def Let_def)
  obtain ids where dn: "div_number lib page_url d = (int_of_digits ds, ids)"
    using num by (cases "div_number lib page_url d") simp
  have "div_entry lib page_url d = Some (int_of_digits ds, collapse_ws (div_content d), div_id d # ids)"
    using dn nz body by (simp add: div_entry_def Let_def)
  then show ?thesis
    using num by (simp add: div_footnote_step_def register_def)
qed

lemma example_div_facts:
  "collapse_ws (link_href example_link) \<noteq> []"
  "search_footnote (fragment (urlparse example_lib (urljoin example_lib example_page
      (collapse_ws (link_href example_link))))) = Some ''7''"
  "int_of_digits ''7'' = 7"
  "collapse_ws (div_content example_div) = ''Body''"
  "first_number (link_text example_link) = Some ''3''"
  "int_of_digits ''3'' = 3"
  "div_entry example_lib example_page example_div = Some (7, ''Body'', [''fn'', '''', ''footnote-7''])"
  by code_simp+

theorem pattern_number_wins_witness:
  "fst (div_number example_lib example_page example_div) = 7 \<and>
   footnotes_by_number (div_footnote_step example_lib example_page no_footnotes example_div)
     = (footnotes_by_number no_footnotes)(7 \<mapsto> ''Body'')"
proof -
  have link: "div_number_link example_div = Some example_link"
    by (simp add: example_div_def)
  have nz: "int_of_digits ''7'' \<noteq> 0" by (simp add: example_div_facts(3))
  have body: "collapse_ws (div_content example_div) \<noteq> []" by (simp add: example_div_facts(4))
  show ?thesis
    using pattern_number_wins [OF link example_div_facts(1) example_div_facts(2) nz body, of no_footnotes]
    by (simp add: example_div_facts(3,4))
qed

text \<open>
  The claim as stated fails: a link with the visible text \<open>3\<close> and the target
  \<open>#footnote-7\<close> has the explicit number 3 and the pattern-derived number 7, and the body
  is registered under 7 and not under 3.
\<close>

theorem explicit_number_wins_counterexample:
  "div_number_link example_div = Some example_link \<and>
   first_number (link_text example_link) = Some ''3'' \<and>
   int_of_digits ''3'' = 3 \<and>
   search_footnote (fragment (urlparse example_lib (urljoin example_lib example_page
      (collapse_ws (link_href example_link))))) = Some ''7'' \<and>
   int_of_digits ''7'' = 7 \<and>
   footnotes_by_number (build_numbered_footnotes example_lib example_page [] [example_div]) 3 = None \<and>
   footnotes_by_number (build_numbered_footnotes example_lib example_page [] [example_div]) 7 = Some ''Body''"
  by (simp add: example_div_facts build_numbered_footnotes_def div_footnote_step_def
      register_def no_footnotes_def) (simp add: example_div_def)

section \<open>Properties of the inline converter\<close>

text \<open>
  Where the text of a superscript holds a digit, \<open>footnote_from_text\<close> renders something:
  the footnote of that number or the number as a superscript.
\<close>

lemma footnote_from_text_digits:
  assumes "first_number text = Some ds"
  shows "footnote_from_text self text \<noteq> []"
  using assms by (simp add: footnote_from_text_def Let_def bsl_def split: option.splits)

lemma first_number_th: "first_number ''th'' = None"
  by code_simp

lemma first_number_star: "first_number ''*'' = None"
  by code_simp

lemma lettered_ref_note:
  "ref_note example_lib no_converter (''#cite-a'', ''[a]'') = Inr (bsl @ ''textsuperscript{a}'')"
  by code_simp

text \<open>
  Claim C6. The claim does not hold of the code: a superscript whose text holds no
  digit, such as the \<open>th\<close> of an ordinal or an asterisk, is rendered as the empty string
  by \<open>footnote_from_text\<close>, whatever the tables hold, and a reference superscript with a
  text and no link is rendered as the empty string by \<open>footnote_from_ref\<close>: the label is
  dropped. Where there is a link, \<open>footnote_from_ref\<close> keeps such a label: the reference
  \<open>[a]\<close> is rendered as a superscript \<open>a\<close>.
\<close>

theorem superscript_label_dropped:
  "sup_text ordinal_sup = ''th'' \<and>
   footnote_from_text self (sup_text ordinal_sup) = [] \<and>
   convert_sup lib self ordinal_sup = Inr [] \<and>
   footnote_from_text self ''*'' = [] \<and>
   convert_sup lib self unlinked_ref = Inr [] \<and>
   convert_sup example_lib no_converter lettered_ref = Inr (bsl @ ''textsuperscript{a}'')"
  by (simp add: convert_sup_def footnote_from_text_def first_number_th first_number_star
      ordinal_sup_def unlinked_ref_def lettered_ref_def lettered_ref_note)

text \<open>
  Claim C7. When the plain text of a link starts, in any case, with \<open>http://\<close>,
  \<open>https://\<close> or \<open>www.\<close>, the label of the rendered hyperlink is the host of the link
  target with a leading \<open>www.\<close> removed, whatever the text of the link is. The host is the
  network location of the target in lower case and stripped, the label is its
  LaTeX-escaped form, and where the target has no host the label is the word \<open>link\<close>.
\<close>

theorem raw_url_label_compacted:
  assumes "startswith ''http://'' (lower plain_text) \<or> startswith ''https://'' (lower plain_text)
             \<or> startswith ''www.'' (lower plain_text)"
    and "host = strip (lower (netloc (urlparse lib href)))"
    and "short = (if startswith ''www.'' host then drop 4 host else host)"
  shows "hyperlink_label lib href rendered_text plain_text
           = latex_escape_plain (if short = [] then ''link'' else short) \<and>
         render_hyperlink lib href rendered_text plain_text
           = bsl @ ''href{'' @ href_target lib href @ ''}{'' @ bsl @ ''textcolor{LinkColor}{''
               @ latex_escape_plain (if short = [] then ''link'' else short)
               @ bsl @ ''hspace{0.32em}'' @ bsl @ ''linkicon}}''"
proof -
  have c: "compact_link_label lib href = (if short = [] then ''link'' else short)"
    by (simp only: compact_link_label_def Let_def assms(2)[symmetric] assms(3)[symmetric])
  have l: "hyperlink_label lib href rendered_text plain_text
             = latex_escape_plain (compact_link_label lib href)"
    using assms(1) by (auto simp: hyperlink_label_def Let_def)
  show ?thesis
    unfolding render_hyperlink_def l c by simp
qed

text \<open>
  The instance of the specification: a link to \<open>https://example.com/foo\<close> whose text is
  that URL gets the label \<open>example.com\<close>; so does a link whose text starts with \<open>WWW.\<close>
  and whose target is on the host \<open>WWW.Example.com\<close>.
\<close>

lemma example_link_facts:
  "startswith ''https://'' (lower ''https://example.com/foo'')"
  "strip (lower (netloc (urlparse example_lib ''https://example.com/foo''))) = ''example.com''"
  "startswith ''www.'' ''example.com'' = False"
  "latex_escape_plain ''example.com'' = ''example.com''"
  "href_target example_lib ''https://example.com/foo'' = bsl @ ''detokenize{https://example.com/foo}''"
  "strip (lower (netloc (urlparse example_lib ''https://WWW.Example.com/a''))) = ''www.example.com''"
  "startswith ''www.'' ''www.example.com''"
  "startswith ''www.'' (lower ''WWW.example.com/a'')"
  by code_simp+

theorem raw_url_label_compacted_witness:
  "hyperlink_label example_lib ''https://example.com/foo'' ''https://example.com/foo''
       ''https://example.com/foo'' = ''example.com'' \<and>
   render_hyperlink example_lib ''https://example.com/foo'' ''https://example.com/foo''
       ''https://example.com/foo''
     = bsl @ ''href{'' @ bsl @ ''detokenize{https://example.com/foo}}{'' @ bsl
         @ ''textcolor{LinkColor}{example.com'' @ bsl @ ''hspace{0.32em}'' @ bsl @ ''linkicon}}'' \<and>
   hyperlink_label example_lib ''https://WWW.Example.com/a'' ''WWW.example.com/a''
       ''WWW.example.com/a'' = ''example.com''"
proof -
  have p: "startswith ''http://'' (lower ''https://example.com/foo'')
             \<or> startswith ''https://'' (lower ''https://example.com/foo'')
             \<or> startswith ''www.'' (lower ''https://example.com/foo'')"
    by (simp add: example_link_facts(1))
  have h: "''example.com'' = strip (lower (netloc (urlparse example_lib ''https://example.com/foo'')))"
    by (simp add: example_link_facts(2))
  have n: "''example.com'' = (if startswith ''www.'' ''example.com'' then drop 4 ''example.com'' else ''example.com'')"
    by (simp add: example_link_facts(3))
  have p2: "startswith ''http://'' (lower ''WWW.example.com/a'')
             \<or> startswith ''https://'' (lower ''WWW.example.com/a'')
             \<or> startswith ''www.'' (lower ''WWW.example.com/a'')"
    by (simp add: example_link_facts(8))
  have h2: "''www.example.com'' = strip (lower (netloc (urlparse example_lib ''https://WWW.Example.com/a'')))"
    by (simp add: example_link_facts(6))
  have n2: "''example.com'' = (if startswith ''www.'' ''www.example.com'' then drop 4 ''www.example.com''
             else ''www.example.com'')"
    by (simp add: example_link_facts(7))
  show ?thesis
    using raw_url_label_compacted [OF p h n, of "''https://example.com/foo''"]
      raw_url_label_compacted [OF p2 h2 n2, of "''WWW.example.com/a''"]
    by (simp add: example_link_facts)
qed

section \<open>Properties of the image store\<close>

text \<open>
  A call of \<open>fetch\<close> ends in one of four ways: nothing done; a download that failed or
  gave an unusable format, with the store unchanged; a cache hit; or a download followed
  by one file written under the next number, with the cache extended by the key.
\<close>

lemma fetch_result:
  assumes "fetch lib net img self = (r, self', ev)"
  defines "u \<equiv> resolve_source lib self (pick_source img)"
  shows "(r = None \<and> self' = self \<and> ev = []) \<or>
         (r = None \<and> self' = self \<and> ev = [Download u] \<and> map_of (cache self) u = None \<and> u \<noteq> []
            \<and> pick_source img \<noteq> [] \<and> should_include img (pick_source img)) \<or>
         (\<exists>rel. r = Some rel \<and> self' = self \<and> ev = [] \<and> map_of (cache self) u = Some rel \<and> u \<noteq> []) \<or>
         (\<exists>ext data. r = Some (''elegant-print-assets/image-'' @ zero_pad 3 (counter self + 1) @ ext) \<and>
            ext \<in> set LATEX_IMAGE_EXTS \<and>
            self' = self\<lparr>counter := counter self + 1,
                        cache := cache self @ [(u, ''elegant-print-assets/image-'' @ zero_pad 3 (counter self + 1) @ ext)]\<rparr> \<and>
            ev = [Download u, WriteFile (''elegant-print-assets/image-'' @ zero_pad 3 (counter self + 1) @ ext) data] \<and>
            map_of (cache self) u = None \<and> u \<noteq> [])"
  using assms(1) unfolding u_def fetch_def Let_def
  by (auto split: if_splits option.splits prod.splits)


lemma fetch_page_url:
  assumes "fetch lib net img self = (r, self', ev)"
  shows "img_page_url self' = img_page_url self"
  using fetch_result[OF assms] by auto

lemma fetch_cache_mono:
  assumes "fetch lib net img self = (r, self', ev)" and "map_of (cache self) k = Some v"
  shows "map_of (cache self') k = Some v"
  using fetch_result[OF assms(1)] assms(2) by (auto simp: map_add_def)

lemma fetch_counter_mono:
  assumes "fetch lib net img self = (r, self', ev)"
  shows "counter self \<le> counter self'"
  using fetch_result[OF assms] by auto

lemma fetch_download_uncached:
  assumes "fetch lib net img self = (r, self', ev)" and "Download k \<in> set ev"
  shows "map_of (cache self) k = None"
  using fetch_result[OF assms(1)] assms(2) by auto

lemma resolve_source_page:
  "img_page_url s = img_page_url s' \<Longrightarrow> resolve_source lib s src = resolve_source lib s' src"
  by (simp add: resolve_source_def)

lemma fetch_hit:
  assumes "pick_source img \<noteq> []" "should_include img (pick_source img)"
    and "resolve_source lib self (pick_source img) = u" "u \<noteq> []"
    and "map_of (cache self) u = Some rel"
  shows "fetch lib net img self = (Some rel, self, [])"
  using assms by (simp add: fetch_def Let_def)


lemma fetch_all_page_url:
  "fetch_all lib calls self = (rs, self', evs) \<Longrightarrow> img_page_url self' = img_page_url self"
proof (induction calls arbitrary: self self' rs evs)
  case Nil
  then show ?case by simp
next
  case (Cons call calls)
  obtain r s1 e1 where f: "fetch lib (fst call) (snd call) self = (r, s1, e1)"
    by (cases "fetch lib (fst call) (snd call) self") auto
  obtain rs2 s2 e2 where g: "fetch_all lib calls s1 = (rs2, s2, e2)"
    by (cases "fetch_all lib calls s1") auto
  from Cons.prems f g have "self' = s2" by simp
  then show ?case using Cons.IH[OF g] fetch_page_url[OF f] by simp
qed

lemma fetch_all_cache_mono:
  "fetch_all lib calls self = (rs, self', evs) \<Longrightarrow> map_of (cache self) k = Some v
     \<Longrightarrow> map_of (cache self') k = Some v \<and> Download k \<notin> set evs"
proof (induction calls arbitrary: self self' rs evs)
  case Nil
  then show ?case by simp
next
  case (Cons call calls)
  obtain r s1 e1 where f: "fetch lib (fst call) (snd call) self = (r, s1, e1)"
    by (cases "fetch lib (fst call) (snd call) self") auto
  obtain rs2 s2 e2 where g: "fetch_all lib calls s1 = (rs2, s2, e2)"
    by (cases "fetch_all lib calls s1") auto
  from Cons.prems(1) f g have eq: "self' = s2" "evs = e1 @ e2" by simp_all
  have k1: "map_of (cache s1) k = Some v" by (rule fetch_cache_mono[OF f Cons.prems(2)])
  have n1: "Download k \<notin> set e1"
    using fetch_download_uncached[OF f, of k] Cons.prems(2) by auto
  show ?case using Cons.IH[OF g k1] n1 eq by simp
qed

text \<open>
  Claim C5, as amended. Let a fetch of one image node succeed with an asset path, let
  any fetches follow on the same store, and take a second node whose source resolves to
  the same URL and which passes the inclusion filter with a source that is not empty.
  Then the fetch of the second node returns the same path, leaves the store as it is
  and does nothing outside it, and over the first fetch and the fetches in between the
  URL is downloaded once when the cache did not hold it before, and not at all when it
  did.
\<close>

theorem same_source_fetched_once:
  assumes first: "fetch lib net1 img1 self = (Some path, self1, ev1)"
    and later: "fetch_all lib calls self1 = (rs, self2, evs)"
    and same: "resolve_source lib self (pick_source img2) = resolve_source lib self (pick_source img1)"
    and included: "pick_source img2 \<noteq> []" "should_include img2 (pick_source img2)"
  shows "fetch lib net2 img2 self2 = (Some path, self2, []) \<and>
         count_list (ev1 @ evs) (Download (resolve_source lib self (pick_source img1)))
           = (if map_of (cache self) (resolve_source lib self (pick_source img1)) = None then 1 else 0)"
proof -
  let ?u = "resolve_source lib self (pick_source img1)"
  have c1: "map_of (cache self1) ?u = Some path \<and> ?u \<noteq> [] \<and>
            count_list ev1 (Download ?u) = (if map_of (cache self) ?u = None then 1 else 0)"
    using fetch_result[OF first] by (auto simp: map_add_def)
  have c2: "map_of (cache self2) ?u = Some path \<and> Download ?u \<notin> set evs"
    using fetch_all_cache_mono[OF later] c1 by blast
  have p: "img_page_url self2 = img_page_url self"
    using fetch_all_page_url[OF later] fetch_page_url[OF first] by simp
  have r: "resolve_source lib self2 (pick_source img2) = ?u"
    using same resolve_source_page[OF p] by simp
  have hit: "fetch lib net2 img2 self2 = (Some path, self2, [])"
    using fetch_hit[OF included r] c1 c2 by blast
  have "count_list evs (Download ?u) = 0" using c2 by (simp add: count_list_0_iff)
  then show ?thesis using hit c1 by simp
qed

lemma example_fetches:
  "fetch example_lib online (plain_img a_png) store0
     = (Some ''elegant-print-assets/image-001.png'', store1,
        [Download a_png, WriteFile ''elegant-print-assets/image-001.png'' (''bytes of '' @ a_png)])"
  "fetch example_lib offline (plain_img b_jpg) store1 = (None, store1, [Download b_jpg])"
  "fetch example_lib svg_server (plain_img b_jpg) store1 = (None, store1, [Download b_jpg])"
  "fetch example_lib webp_server (plain_img b_jpg) store1 = (None, store1, [Download b_jpg])"
  "fetch example_lib offline (plain_img ''data:image/png;base64,@@'') store1
     = (None, store1, [Download ''data:image/png;base64,@@''])"
  "fetch example_lib online (plain_img b_jpg) store1
     = (Some ''elegant-print-assets/image-002.png'',
        store1\<lparr>counter := 2, cache := cache store1 @ [(b_jpg, ''elegant-print-assets/image-002.png'')]\<rparr>,
        [Download b_jpg, WriteFile ''elegant-print-assets/image-002.png'' (''bytes of '' @ b_jpg)])"
  by code_simp+


lemma example_sources:
  "pick_source (lazy_img ('' '' @ a_png @ ''  '')) \<noteq> []"
  "should_include (lazy_img ('' '' @ a_png @ ''  '')) (pick_source (lazy_img ('' '' @ a_png @ ''  '')))"
  "resolve_source example_lib store0 (pick_source (lazy_img ('' '' @ a_png @ ''  '')))
     = resolve_source example_lib store0 (pick_source (plain_img a_png))"
  "resolve_source example_lib store0 (pick_source (plain_img a_png)) = a_png"
  "map_of (cache store0) a_png = None"
  "pick_source (lazy_img b_jpg) \<noteq> []"
  "should_include (lazy_img b_jpg) (pick_source (lazy_img b_jpg))"
  "resolve_source example_lib store1 (pick_source (lazy_img b_jpg)) = b_jpg"
  "resolve_source example_lib store0 (pick_source (icon_img a_png))
     = resolve_source example_lib store0 (pick_source (plain_img a_png))"
  by code_simp+

lemma example_between:
  "fetch_all example_lib [(offline, plain_img b_jpg), (online, lazy_img b_jpg)] store1
     = ([None, Some ''elegant-print-assets/image-002.png''], store2,
        [Download b_jpg,
         Download b_jpg, WriteFile ''elegant-print-assets/image-002.png'' (''bytes of '' @ b_jpg)])"
  by code_simp

theorem same_source_fetched_once_witness:
  "fetch example_lib online (plain_img a_png) store0
     = (Some ''elegant-print-assets/image-001.png'', store1,
        [Download a_png, WriteFile ''elegant-print-assets/image-001.png'' (''bytes of '' @ a_png)]) \<and>
   fetch example_lib offline (lazy_img ('' '' @ a_png @ ''  '')) store2
     = (Some ''elegant-print-assets/image-001.png'', store2, []) \<and>
   count_list
     ([Download a_png, WriteFile ''elegant-print-assets/image-001.png'' (''bytes of '' @ a_png)]
        @ [Download b_jpg,
           Download b_jpg, WriteFile ''elegant-print-assets/image-002.png'' (''bytes of '' @ b_jpg)])
     (Download a_png) = 1"
  using same_source_fetched_once [OF example_fetches(1) example_between example_sources(3)
      example_sources(1) example_sources(2), of offline]
  by (simp add: example_fetches(1) example_sources(4,5))

text \<open>
  The claim as stated fails when the inclusion filter rejects the second node: a node
  of class \<open>share-icon\<close> with the source of an image fetched before gets no path.
\<close>

theorem same_source_counterexample:
  "fetch example_lib online (plain_img a_png) store0
     = (Some ''elegant-print-assets/image-001.png'', store1,
        [Download a_png, WriteFile ''elegant-print-assets/image-001.png'' (''bytes of '' @ a_png)]) \<and>
   resolve_source example_lib store0 (pick_source (icon_img a_png))
     = resolve_source example_lib store0 (pick_source (plain_img a_png)) \<and>
   fetch example_lib online (icon_img a_png) store1 = (None, store1, [])"
proof -
  have "fetch example_lib online (icon_img a_png) store1 = (None, store1, [])"
    by code_simp
  then show ?thesis
    using example_fetches(1) example_sources(9) by simp
qed

lemma small_not_included:
  assumes "img_attrs img ''width'' = Some w" "img_attrs img ''height'' = Some h"
    and "1 \<le> parse_dimension (Some w)" "parse_dimension (Some w) \<le> 80"
    and "1 \<le> parse_dimension (Some h)" "parse_dimension (Some h) \<le> 80"
  shows "\<not> should_include img src"
  using assms by (simp add: should_include_def Let_def)

text \<open>
  Claim C9, as amended. An image node whose \<open>width\<close> and \<open>height\<close> attributes are both
  present and both hold a number from 1 to 80 (the first run of digits of the attribute)
  is rejected by the inclusion filter, whatever its source and classes are: \<open>fetch\<close>
  returns no path and does nothing, and \<open>render_image_tag\<close> renders no block.
\<close>

theorem small_image_rejected:
  assumes "img_attrs img ''width'' = Some w" "img_attrs img ''height'' = Some h"
    and "1 \<le> parse_dimension (Some w)" "parse_dimension (Some w) \<le> 80"
    and "1 \<le> parse_dimension (Some h)" "parse_dimension (Some h) \<le> 80"
  shows "\<not> should_include img src \<and>
         fetch lib net img self = (None, self, []) \<and>
         render_image_tag lib net img caption_tex self = ([], self, [])"
proof -
  have n: "\<not> should_include img s" for s by (rule small_not_included[OF assms])
  have f: "fetch lib net img self = (None, self, [])"
    using n by (simp add: fetch_def Let_def)
  show ?thesis using n f by (simp add: render_image_tag_def)
qed

lemma example_dimensions:
  "img_attrs (sized_img a_png ''40px'' ''80'') ''width'' = Some ''40px''"
  "img_attrs (sized_img a_png ''40px'' ''80'') ''height'' = Some ''80''"
  "parse_dimension (Some ''40px'') = 40"
  "parse_dimension (Some ''80'') = 80"
  "img_attrs (sized_img a_png ''0'' ''0'') ''width'' = Some ''0''"
  "img_attrs (sized_img a_png ''0'' ''0'') ''height'' = Some ''0''"
  "parse_dimension (Some ''0'') = 0"
  by code_simp+

theorem small_image_rejected_witness:
  "\<not> should_include (sized_img a_png ''40px'' ''80'') a_png \<and>
   fetch example_lib online (sized_img a_png ''40px'' ''80'') store0 = (None, store0, []) \<and>
   render_image_tag example_lib online (sized_img a_png ''40px'' ''80'') [] store0 = ([], store0, [])"
proof -
  have w: "1 \<le> parse_dimension (Some ''40px'')" "parse_dimension (Some ''40px'') \<le> 80"
    by (simp_all add: example_dimensions(3))
  have h: "1 \<le> parse_dimension (Some ''80'')" "parse_dimension (Some ''80'') \<le> 80"
    by (simp_all add: example_dimensions(4))
  show ?thesis
    by (rule small_image_rejected [OF example_dimensions(1) example_dimensions(2) w h])
qed

text \<open>
  The claim as stated fails at zero: \<open>parse_dimension\<close> gives 0 for a missing attribute
  and for one that holds the number 0, and the filter takes 0 for missing. An image
  declared 0 by 0 passes the filter, is fetched and is rendered as an image block.
\<close>

theorem zero_size_image_counterexample:
  "img_attrs (sized_img a_png ''0'' ''0'') ''width'' = Some ''0'' \<and>
   img_attrs (sized_img a_png ''0'' ''0'') ''height'' = Some ''0'' \<and>
   parse_dimension (Some ''0'') = 0 \<and>
   should_include (sized_img a_png ''0'' ''0'') a_png \<and>
   fetch example_lib online (sized_img a_png ''0'' ''0'') store0
     = (Some ''elegant-print-assets/image-001.png'', store1,
        [Download a_png, WriteFile ''elegant-print-assets/image-001.png'' (''bytes of '' @ a_png)]) \<and>
   fst (render_image_tag example_lib online (sized_img a_png ''0'' ''0'') [] store0)
     = render_image_block ''elegant-print-assets/image-001.png'' []"
proof -
  have a: "should_include (sized_img a_png ''0'' ''0'') a_png" by code_simp
  have b: "fetch example_lib online (sized_img a_png ''0'' ''0'') store0
     = (Some ''elegant-print-assets/image-001.png'', store1,
        [Download a_png, WriteFile ''elegant-print-assets/image-001.png'' (''bytes of '' @ a_png)])"
    by code_simp
  have c: "fst (render_image_tag example_lib online (sized_img a_png ''0'' ''0'') [] store0)
     = render_image_block ''elegant-print-assets/image-001.png'' []"
    by code_simp
  show ?thesis using a b c example_dimensions(5,6,7) by simp
qed






end
